theory Spec2Isabelle
  imports Complex_Main "HOL-Library.Word"
begin

section \<open>The user administration backend of allcrypto-api\<close>

text \<open>
  The program is one Go file, \<^verbatim>\<open>main.go\<close>: two HTTP handlers over a table
  \<^verbatim>\<open>users\<close> of a PostgreSQL database. The file holds the program twice, one
  copy after the other, and so two functions \<^verbatim>\<open>userActionsHandler\<close>: the one at
  lines 87--148 selects the record to update with \<^verbatim>\<open>WHERE username = $2\<close>, the one
  at lines 272--337 (marked ``consultas case-insensitive'') with
  \<^verbatim>\<open>WHERE LOWER(username) = LOWER($2)\<close>. They differ in nothing else, and the rest of
  the two copies is the same text. Both handlers are embedded: the second as
  \<open>userActionsHandler\<close>, the first as \<open>userActionsHandler_exact\<close>.

  The embedding starts after \<^verbatim>\<open>encoding/json\<close> has decoded the request body and
  stops before it has serialised the response: a body is the decoded Go value (or the
  decoding error), a response is a JSON tree.
\<close>

subsection \<open>Go values decoded from JSON\<close>

text \<open>
  What \<^verbatim>\<open>encoding/json\<close> stores in an \<^verbatim>\<open>interface{}\<close>: \<^verbatim>\<open>nil\<close>,
  \<^verbatim>\<open>bool\<close>, \<^verbatim>\<open>float64\<close> (every JSON number), \<^verbatim>\<open>string\<close>,
  \<^verbatim>\<open>[]interface{}\<close> and \<^verbatim>\<open>map[string]interface{}\<close>. A decoded
  \<^verbatim>\<open>float64\<close> is finite, hence a real number; the model keeps that number
  (the value after the decoder's rounding of the literal), so \<open>real\<close> has more elements
  than \<^verbatim>\<open>float64\<close> and what holds for every \<open>real\<close> holds for every decoded number.
\<close>

datatype jvalue =
    JNil
  | JBool bool
  | JNumber real
  | JString string
  | JArray "jvalue list"
  | JObject "(string \<times> jvalue) list"

text \<open>\<^verbatim>\<open>map[string]interface{}\<close>; a missing key reads as \<^verbatim>\<open>nil\<close>.\<close>

type_synonym payload = "string \<rightharpoonup> jvalue"

text \<open>
  The comma-ok type assertions \<^verbatim>\<open>v, ok := payload[k].(T)\<close>: the value and
  \<^verbatim>\<open>true\<close> when the dynamic type is \<^verbatim>\<open>T\<close>, the zero value of \<^verbatim>\<open>T\<close>
  and \<^verbatim>\<open>false\<close> otherwise (also for a missing key).
\<close>

fun assert_string :: "jvalue option \<Rightarrow> string \<times> bool" where
  "assert_string (Some (JString s)) = (s, True)"
| "assert_string _ = ('''', False)"

fun assert_bool :: "jvalue option \<Rightarrow> bool \<times> bool" where
  "assert_bool (Some (JBool b)) = (b, True)"
| "assert_bool _ = (False, False)"

fun assert_float64 :: "jvalue option \<Rightarrow> real \<times> bool" where
  "assert_float64 (Some (JNumber x)) = (x, True)"
| "assert_float64 _ = (0, False)"

subsection \<open>The conversion \<^verbatim>\<open>int(indicacao)\<close>\<close>

text \<open>
  Go's \<^verbatim>\<open>int\<close> is taken at 64 bits (the deployment target named in the source's
  comments is a 64-bit platform). Converting a \<^verbatim>\<open>float64\<close> to \<^verbatim>\<open>int\<close>
  discards the fraction (truncation towards zero). When the truncated value does not fit,
  the language leaves the result to the implementation: \<open>impl\<close> stands for that choice.
\<close>

type_synonym go_int = "64 word"

definition trunc :: "real \<Rightarrow> int" where
  "trunc x = (if 0 \<le> x then \<lfloor>x\<rfloor> else \<lceil>x\<rceil>)"

definition fits_int :: "int \<Rightarrow> bool" where
  "fits_int i \<longleftrightarrow> - (2 ^ 63) \<le> i \<and> i < 2 ^ 63"

definition int_of_float64 :: "(real \<Rightarrow> go_int) \<Rightarrow> real \<Rightarrow> go_int" where
  "int_of_float64 impl x = (if fits_int (trunc x) then word_of_int (trunc x) else impl x)"

subsection \<open>The table \<^verbatim>\<open>users\<close> and the statements sent to it\<close>

text \<open>
  The table's declaration is not part of the source. Its columns are the ones the
  statements name (each field below is the column of that name), typed as the fields of
  the struct \<^verbatim>\<open>User\<close> that the listing scans them into; \<^verbatim>\<open>ip\<close> is the only one read through a pointer, so the only one
  that may be \<^verbatim>\<open>NULL\<close>.
\<close>

record user_row =
  id_col :: "64 word"
  username_col :: string
  password_col :: string
  is_blocked_col :: bool
  renewal_date_col :: string
  ip_col :: "string option"
  indicacao_col :: go_int

text \<open>
  One constructor for each SQL text of the source, with its parameters in the order
  \<^verbatim>\<open>$1, $2, ...\<close>:
  \<^item> \<open>InsertUser\<close>: \<^verbatim>\<open>INSERT INTO users (username, password, is_blocked, renewal_date, indicacao) VALUES ($1, $2, false, $3, 0)\<close>
  \<^item> \<open>UpdatePassword\<close>: \<^verbatim>\<open>UPDATE users SET password = $1 WHERE LOWER(username) = LOWER($2)\<close>
  \<^item> \<open>UpdateBlocked\<close>: \<^verbatim>\<open>UPDATE users SET is_blocked = $1 WHERE LOWER(username) = LOWER($2)\<close>
  \<^item> \<open>UpdateRenewal\<close>: \<^verbatim>\<open>UPDATE users SET renewal_date = $1 WHERE LOWER(username) = LOWER($2)\<close>
  \<^item> \<open>UpdateIndicacao\<close>: \<^verbatim>\<open>UPDATE users SET indicacao = $1 WHERE LOWER(username) = LOWER($2)\<close>
  \<^item> \<open>UpdateIP\<close>: \<^verbatim>\<open>UPDATE users SET ip = $1 WHERE LOWER(username) = LOWER($2)\<close>
  \<^item> \<open>SelectUsers\<close>: \<^verbatim>\<open>SELECT id, username, is_blocked, renewal_date, ip, indicacao FROM users ORDER BY id\<close>
  \<^item> \<open>UpdatePasswordExact\<close>: \<^verbatim>\<open>UPDATE users SET password = $1 WHERE username = $2\<close>
  \<^item> \<open>UpdateBlockedExact\<close>: \<^verbatim>\<open>UPDATE users SET is_blocked = $1 WHERE username = $2\<close>
  \<^item> \<open>UpdateRenewalExact\<close>: \<^verbatim>\<open>UPDATE users SET renewal_date = $1 WHERE username = $2\<close>
  \<^item> \<open>UpdateIndicacaoExact\<close>: \<^verbatim>\<open>UPDATE users SET indicacao = $1 WHERE username = $2\<close>
  \<^item> \<open>UpdateIPExact\<close>: \<^verbatim>\<open>UPDATE users SET ip = $1 WHERE username = $2\<close>

  The last five are the statements of the handler at lines 87--148.
\<close>

datatype stmt =
    InsertUser string string string
  | UpdatePassword string string
  | UpdateBlocked bool string
  | UpdateRenewal string string
  | UpdateIndicacao go_int string
  | UpdateIP string string
  | SelectUsers
  | UpdatePasswordExact string string
  | UpdateBlockedExact bool string
  | UpdateRenewalExact string string
  | UpdateIndicacaoExact go_int string
  | UpdateIPExact string string

text \<open>
  The database behind \<^verbatim>\<open>*sql.DB\<close>: the rows of the table in insertion order, the
  next value of the id sequence, the condition of the connection (\<open>Some e\<close>: every call
  fails with the error \<open>e\<close>), and the statements sent so far, in order. The last field is
  what ``store access'' means below: a handler that leaves it as it was has sent nothing.
\<close>

record db =
  rows :: "user_row list"
  next_id :: "64 word"
  fault :: "string option"
  sent :: "stmt list"

text \<open>
  SQL's \<^verbatim>\<open>LOWER\<close> on the ASCII letters; other bytes are kept (what PostgreSQL does
  for them depends on the database's locale).
\<close>

definition case_pairs :: "(char \<times> char) list" where
  "case_pairs = zip ''ABCDEFGHIJKLMNOPQRSTUVWXYZ'' ''abcdefghijklmnopqrstuvwxyz''"

definition lower_char :: "char \<Rightarrow> char" where
  "lower_char c = (case map_of case_pairs c of None \<Rightarrow> c | Some l \<Rightarrow> l)"

definition LOWER :: "string \<Rightarrow> string" where
  "LOWER s = map lower_char s"

text \<open>The rows a \<^verbatim>\<open>WHERE LOWER(username) = LOWER($2)\<close> selects.\<close>

definition matches :: "string \<Rightarrow> user_row \<Rightarrow> bool" where
  "matches u r \<longleftrightarrow> LOWER (username_col r) = LOWER u"

text \<open>
  An \<^verbatim>\<open>UPDATE ... SET ... WHERE\<close>: every selected row is rewritten; the count
  reported is the number of selected rows, whether or not the new value differs from the
  old one.
\<close>

definition update_where :: "string \<Rightarrow> (user_row \<Rightarrow> user_row) \<Rightarrow> user_row list \<Rightarrow> user_row list \<times> nat" where
  "update_where u f rs =
     (map (\<lambda>r. if matches u r then f r else r) rs, length (filter (matches u) rs))"

text \<open>The same with \<^verbatim>\<open>WHERE username = $2\<close>: the rows whose username is the given string.\<close>

definition matches_exact :: "string \<Rightarrow> user_row \<Rightarrow> bool" where
  "matches_exact u r \<longleftrightarrow> username_col r = u"

definition update_exact :: "string \<Rightarrow> (user_row \<Rightarrow> user_row) \<Rightarrow> user_row list \<Rightarrow> user_row list \<times> nat" where
  "update_exact u f rs =
     (map (\<lambda>r. if matches_exact u r then f r else r) rs, length (filter (matches_exact u) rs))"

text \<open>
  Modelled from the spec: the uniqueness constraint of the table \<^verbatim>\<open>users\<close>, whose
  declaration is missing from the source. The spec has the username as a
  ``case-insensitive unique key'', ``enforced by the store'', a duplicate (``any
  case-equivalent'') being an execution error.
\<close>

definition violates_unique :: "user_row list \<Rightarrow> string \<Rightarrow> bool" where
  "violates_unique rs u \<longleftrightarrow> list_ex (matches u) rs"

text \<open>The driver's message for that error; the constraint's name, which it would append, is not in the source.\<close>

definition unique_violation :: string where
  "unique_violation = ''pq: duplicate key value violates unique constraint''"

text \<open>
  Modelled from the spec: the defaults of the columns the \<^verbatim>\<open>INSERT\<close> does not
  name, missing from the source with the table's declaration. The spec has the id
  ``assigned by store'' and a new record with ``no IP''.
\<close>

definition new_row :: "64 word \<Rightarrow> string \<Rightarrow> string \<Rightarrow> string \<Rightarrow> user_row" where
  "new_row i u p rd =
     \<lparr>id_col = i, username_col = u, password_col = p, is_blocked_col = False,
      renewal_date_col = rd, ip_col = None, indicacao_col = 0\<rparr>"

text \<open>The effect of one statement on the rows and the id sequence, with the affected-row count.\<close>

fun run_stmt :: "stmt \<Rightarrow> db \<Rightarrow> db \<times> (string + nat)" where
  "run_stmt (InsertUser u p rd) d =
     (if violates_unique (rows d) u then (d, Inl unique_violation)
      else (d\<lparr>rows := rows d @ [new_row (next_id d) u p rd], next_id := next_id d + 1\<rparr>, Inr 1))"
| "run_stmt (UpdatePassword v u) d =
     (case update_where u (\<lambda>r. r\<lparr>password_col := v\<rparr>) (rows d) of (rs, n) \<Rightarrow> (d\<lparr>rows := rs\<rparr>, Inr n))"
| "run_stmt (UpdateBlocked v u) d =
     (case update_where u (\<lambda>r. r\<lparr>is_blocked_col := v\<rparr>) (rows d) of (rs, n) \<Rightarrow> (d\<lparr>rows := rs\<rparr>, Inr n))"
| "run_stmt (UpdateRenewal v u) d =
     (case update_where u (\<lambda>r. r\<lparr>renewal_date_col := v\<rparr>) (rows d) of (rs, n) \<Rightarrow> (d\<lparr>rows := rs\<rparr>, Inr n))"
| "run_stmt (UpdateIndicacao v u) d =
     (case update_where u (\<lambda>r. r\<lparr>indicacao_col := v\<rparr>) (rows d) of (rs, n) \<Rightarrow> (d\<lparr>rows := rs\<rparr>, Inr n))"
| "run_stmt (UpdateIP v u) d =
     (case update_where u (\<lambda>r. r\<lparr>ip_col := Some v\<rparr>) (rows d) of (rs, n) \<Rightarrow> (d\<lparr>rows := rs\<rparr>, Inr n))"
| "run_stmt SelectUsers d = (d, Inr 0)"
| "run_stmt (UpdatePasswordExact v u) d =
     (case update_exact u (\<lambda>r. r\<lparr>password_col := v\<rparr>) (rows d) of (rs, n) \<Rightarrow> (d\<lparr>rows := rs\<rparr>, Inr n))"
| "run_stmt (UpdateBlockedExact v u) d =
     (case update_exact u (\<lambda>r. r\<lparr>is_blocked_col := v\<rparr>) (rows d) of (rs, n) \<Rightarrow> (d\<lparr>rows := rs\<rparr>, Inr n))"
| "run_stmt (UpdateRenewalExact v u) d =
     (case update_exact u (\<lambda>r. r\<lparr>renewal_date_col := v\<rparr>) (rows d) of (rs, n) \<Rightarrow> (d\<lparr>rows := rs\<rparr>, Inr n))"
| "run_stmt (UpdateIndicacaoExact v u) d =
     (case update_exact u (\<lambda>r. r\<lparr>indicacao_col := v\<rparr>) (rows d) of (rs, n) \<Rightarrow> (d\<lparr>rows := rs\<rparr>, Inr n))"
| "run_stmt (UpdateIPExact v u) d =
     (case update_exact u (\<lambda>r. r\<lparr>ip_col := Some v\<rparr>) (rows d) of (rs, n) \<Rightarrow> (d\<lparr>rows := rs\<rparr>, Inr n))"

text \<open>
  \<^verbatim>\<open>db.Exec(query, args...)\<close> followed by \<^verbatim>\<open>result.RowsAffected()\<close>: the
  statement is recorded as sent; a broken connection gives its error and changes nothing.
\<close>

definition Exec :: "db \<Rightarrow> stmt \<Rightarrow> db \<times> (string + nat)" where
  "Exec d s =
     (let d' = d\<lparr>sent := sent d @ [s]\<rparr>
      in case fault d of Some e \<Rightarrow> (d', Inl e) | None \<Rightarrow> run_stmt s d')"

text \<open>
  \<^verbatim>\<open>db.Query\<close> with the \<^verbatim>\<open>SELECT\<close> of the listing: the six selected columns of
  every row, ordered by id. The password column is not among them.
\<close>

type_synonym selected = "64 word \<times> string \<times> bool \<times> string \<times> string option \<times> go_int"

definition select_cols :: "user_row \<Rightarrow> selected" where
  "select_cols r = (id_col r, username_col r, is_blocked_col r, renewal_date_col r, ip_col r, indicacao_col r)"

definition Query :: "db \<Rightarrow> db \<times> (string + selected list)" where
  "Query d =
     (let d' = d\<lparr>sent := sent d @ [SelectUsers]\<rparr>
      in case fault d of
           Some e \<Rightarrow> (d', Inl e)
         | None \<Rightarrow> (d', Inr (sort_key (\<lambda>c. sint (fst c)) (map select_cols (rows d)))))"

subsection \<open>Requests and responses\<close>

text \<open>
  Of a request the handlers read the method and the body. \<open>Body\<close> is the outcome of
  \<^verbatim>\<open>json.NewDecoder(r.Body).Decode(&payload)\<close>: \<open>None\<close> when it returns an error
  (malformed JSON, or a top-level value that is neither an object nor \<^verbatim>\<open>null\<close>),
  the map otherwise (the empty map for \<^verbatim>\<open>null\<close>, which leaves the map \<^verbatim>\<open>nil\<close>).
\<close>

record Request =
  Method :: string
  Body :: "payload option"

text \<open>The struct \<^verbatim>\<open>User\<close>; \<open>IP\<close> is a \<^verbatim>\<open>*string\<close>, \<open>None\<close> for \<^verbatim>\<open>nil\<close>.\<close>

record User =
  ID :: "64 word"
  Username :: string
  Password :: string
  IsBlocked :: bool
  RenewalDate :: string
  IP :: "string option"
  Indicacao :: go_int

text \<open>
  The struct \<^verbatim>\<open>Response\<close>. Its \<^verbatim>\<open>Data interface{}\<close> holds, in this program,
  nothing (\<open>NoData\<close>) or the \<^verbatim>\<open>[]User\<close> of the listing.
\<close>

datatype data = NoData | UserSlice "User list"

record Response =
  Message :: string
  Data :: data

text \<open>
  What \<^verbatim>\<open>json.Encoder.Encode\<close> writes, as a tree, following the struct tags:
  \<open>Password\<close> is tagged \<^verbatim>\<open>json:"-"\<close> and left out; \<open>Data\<close> is tagged
  \<^verbatim>\<open>omitempty\<close> and left out when the interface is \<^verbatim>\<open>nil\<close>. A slice that was
  never appended to is \<^verbatim>\<open>nil\<close> and is written as \<^verbatim>\<open>null\<close>.
\<close>

definition encode_User :: "User \<Rightarrow> jvalue" where
  "encode_User u =
     JObject [(''id'', JNumber (of_int (sint (ID u)))),
              (''username'', JString (Username u)),
              (''is_blocked'', JBool (IsBlocked u)),
              (''renewal_date'', JString (RenewalDate u)),
              (''ip'', case IP u of None \<Rightarrow> JNil | Some a \<Rightarrow> JString a),
              (''indicacao'', JNumber (of_int (sint (Indicacao u))))]"

definition encode_Response :: "Response \<Rightarrow> jvalue" where
  "encode_Response r =
     JObject ((''message'', JString (Message r)) #
              (case Data r of
                 NoData \<Rightarrow> []
               | UserSlice us \<Rightarrow>
                   [(''data'', if us = [] then JNil else JArray (map encode_User us))]))"

text \<open>
  The \<^verbatim>\<open>http.ResponseWriter\<close>: the header map, the status codes passed to
  \<^verbatim>\<open>WriteHeader\<close> and the values encoded into the body, each in call order.
\<close>

record ResponseWriter =
  Header :: "string \<rightharpoonup> string"
  StatusCodes :: "int list"
  Written :: "jvalue list"

definition jsonResponse :: "ResponseWriter \<Rightarrow> int \<Rightarrow> Response \<Rightarrow> ResponseWriter" where
  "jsonResponse w statusCode data =
     w\<lparr>Header := (Header w)(''Content-Type'' \<mapsto> ''application/json''),
       StatusCodes := StatusCodes w @ [statusCode],
       Written := Written w @ [encode_Response data]\<rparr>"

subsection \<open>The messages\<close>

text \<open>Go strings are byte sequences; the accented letters are their UTF-8 bytes.\<close>

definition msg_method_not_allowed :: string where
  "msg_method_not_allowed =
     ''M'' @ [CHR 0xC3, CHR 0xA9] @ ''todo n'' @ [CHR 0xC3, CHR 0xA3] @ ''o permitido''"

definition msg_bad_request :: string where
  "msg_bad_request =
     ''Requisi'' @ [CHR 0xC3, CHR 0xA7, CHR 0xC3, CHR 0xA3] @ ''o inv'' @ [CHR 0xC3, CHR 0xA1] @ ''lida''"

definition msg_bad_indicacao :: string where
  "msg_bad_indicacao =
     ''Valor de indica'' @ [CHR 0xC3, CHR 0xA7, CHR 0xC3, CHR 0xA3] @ ''o inv'' @
     [CHR 0xC3, CHR 0xA1] @ ''lido''"

definition msg_unknown_action :: string where
  "msg_unknown_action = ''A'' @ [CHR 0xC3, CHR 0xA7, CHR 0xC3, CHR 0xA3] @ ''o desconhecida''"

definition msg_exec_error :: "string \<Rightarrow> string \<Rightarrow> string" where
  "msg_exec_error action err =
     ''Erro ao executar a'' @ [CHR 0xC3, CHR 0xA7, CHR 0xC3, CHR 0xA3] @ ''o '' @ [CHR 0x27] @
     action @ [CHR 0x27] @ '': '' @ err"

definition msg_not_found :: string where
  "msg_not_found =
     ''Nenhum usu'' @ [CHR 0xC3, CHR 0xA1] @ ''rio encontrado com o nome fornecido.''"

definition msg_success :: "string \<Rightarrow> string" where
  "msg_success action =
     ''A'' @ [CHR 0xC3, CHR 0xA7, CHR 0xC3, CHR 0xA3] @ ''o '' @ [CHR 0x27] @ action @
     [CHR 0x27] @ '' executada com sucesso!''"

definition msg_query_error :: "string \<Rightarrow> string" where
  "msg_query_error err = ''Erro ao buscar usu'' @ [CHR 0xC3, CHR 0xA1] @ ''rios: '' @ err"

definition msg_listed :: string where
  "msg_listed = ''Usu'' @ [CHR 0xC3, CHR 0xA1] @ ''rios listados com sucesso''"

subsection \<open>The listing handler\<close>

text \<open>
  \<^verbatim>\<open>rows.Scan\<close> fills every field of a \<^verbatim>\<open>User\<close> but \<open>Password\<close>, which keeps
  its zero value. It fails only on a column value that does not convert to the field's
  type; the rows of the model are typed as the fields are, so the source's branch for that
  error has no counterpart here.
\<close>

definition Scan :: "selected \<Rightarrow> User" where
  "Scan c =
     (case c of (i, u, b, rd, a, n) \<Rightarrow>
        \<lparr>ID = i, Username = u, Password = [], IsBlocked = b, RenewalDate = rd, IP = a,
         Indicacao = n\<rparr>)"

definition listarUsuariosHandler :: "db \<Rightarrow> ResponseWriter \<Rightarrow> Request \<Rightarrow> db \<times> ResponseWriter" where
  "listarUsuariosHandler d w r =
     (if Method r \<noteq> ''GET'' then
        (d, jsonResponse w 405 \<lparr>Message = msg_method_not_allowed, Data = NoData\<rparr>)
      else
        case Query d of
          (d', Inl err) \<Rightarrow>
            (d', jsonResponse w 500 \<lparr>Message = msg_query_error err, Data = NoData\<rparr>)
        | (d', Inr rs) \<Rightarrow>
            (d', jsonResponse w 200 \<lparr>Message = msg_listed, Data = UserSlice (map Scan rs)\<rparr>))"

subsection \<open>The action handlers\<close>

text \<open>
  The handler of lines 272--337. The \<^verbatim>\<open>switch\<close> either returns from the handler after a response (\<open>Inl\<close>, the
  writer after it) or leaves \<^verbatim>\<open>result, err\<close> for the code after it (\<open>Inr\<close>).
\<close>

definition userActionsHandler ::
  "(real \<Rightarrow> go_int) \<Rightarrow> db \<Rightarrow> ResponseWriter \<Rightarrow> Request \<Rightarrow> db \<times> ResponseWriter" where
  "userActionsHandler impl d w r =
     (if Method r \<noteq> ''POST'' then
        (d, jsonResponse w 405 \<lparr>Message = msg_method_not_allowed, Data = NoData\<rparr>)
      else
        case Body r of
          None \<Rightarrow> (d, jsonResponse w 400 \<lparr>Message = msg_bad_request, Data = NoData\<rparr>)
        | Some payload \<Rightarrow>
            let action = fst (assert_string (payload ''action''));
                username = fst (assert_string (payload ''username''));
                switch =
                  (if action = ''inserirUsuario'' then
                     let password = fst (assert_string (payload ''password''));
                         renewalDate = fst (assert_string (payload ''renewal_date''))
                     in Inr (Exec d (InsertUser username password renewalDate))
                   else if action = ''atualizarSenha'' then
                     let newPassword = fst (assert_string (payload ''new_password''))
                     in Inr (Exec d (UpdatePassword newPassword username))
                   else if action = ''bloquearUsuario'' then
                     let isBlocked = fst (assert_bool (payload ''is_blocked''))
                     in Inr (Exec d (UpdateBlocked isBlocked username))
                   else if action = ''atualizarRenovacao'' then
                     let renewalDate = fst (assert_string (payload ''renewal_date''))
                     in Inr (Exec d (UpdateRenewal renewalDate username))
                   else if action = ''atualizarIndicacao'' then
                     (case assert_float64 (payload ''indicacao'') of
                        (indicacao, ok) \<Rightarrow>
                          if \<not> ok then
                            Inl (jsonResponse w 400 \<lparr>Message = msg_bad_indicacao, Data = NoData\<rparr>)
                          else Inr (Exec d (UpdateIndicacao (int_of_float64 impl indicacao) username)))
                   else if action = ''atualizarIP'' then
                     let novoIP = fst (assert_string (payload ''novo_ip''))
                     in Inr (Exec d (UpdateIP novoIP username))
                   else Inl (jsonResponse w 400 \<lparr>Message = msg_unknown_action, Data = NoData\<rparr>))
            in case switch of
                 Inl w' \<Rightarrow> (d, w')
               | Inr (d', Inl err) \<Rightarrow>
                   (d', jsonResponse w 500 \<lparr>Message = msg_exec_error action err, Data = NoData\<rparr>)
               | Inr (d', Inr rowsAffected) \<Rightarrow>
                   if rowsAffected = 0 then
                     (d', jsonResponse w 404 \<lparr>Message = msg_not_found, Data = NoData\<rparr>)
                   else
                     (d', jsonResponse w 200 \<lparr>Message = msg_success action, Data = NoData\<rparr>))"

text \<open>
  The handler of lines 87--148: the same code with the five \<^verbatim>\<open>UPDATE\<close> texts that
  compare \<^verbatim>\<open>username = $2\<close>.
\<close>

definition userActionsHandler_exact ::
  "(real \<Rightarrow> go_int) \<Rightarrow> db \<Rightarrow> ResponseWriter \<Rightarrow> Request \<Rightarrow> db \<times> ResponseWriter" where
  "userActionsHandler_exact impl d w r =
     (if Method r \<noteq> ''POST'' then
        (d, jsonResponse w 405 \<lparr>Message = msg_method_not_allowed, Data = NoData\<rparr>)
      else
        case Body r of
          None \<Rightarrow> (d, jsonResponse w 400 \<lparr>Message = msg_bad_request, Data = NoData\<rparr>)
        | Some payload \<Rightarrow>
            let action = fst (assert_string (payload ''action''));
                username = fst (assert_string (payload ''username''));
                switch =
                  (if action = ''inserirUsuario'' then
                     let password = fst (assert_string (payload ''password''));
                         renewalDate = fst (assert_string (payload ''renewal_date''))
                     in Inr (Exec d (InsertUser username password renewalDate))
                   else if action = ''atualizarSenha'' then
                     let newPassword = fst (assert_string (payload ''new_password''))
                     in Inr (Exec d (UpdatePasswordExact newPassword username))
                   else if action = ''bloquearUsuario'' then
                     let isBlocked = fst (assert_bool (payload ''is_blocked''))
                     in Inr (Exec d (UpdateBlockedExact isBlocked username))
                   else if action = ''atualizarRenovacao'' then
                     let renewalDate = fst (assert_string (payload ''renewal_date''))
                     in Inr (Exec d (UpdateRenewalExact renewalDate username))
                   else if action = ''atualizarIndicacao'' then
                     (case assert_float64 (payload ''indicacao'') of
                        (indicacao, ok) \<Rightarrow>
                          if \<not> ok then
                            Inl (jsonResponse w 400 \<lparr>Message = msg_bad_indicacao, Data = NoData\<rparr>)
                          else Inr (Exec d (UpdateIndicacaoExact (int_of_float64 impl indicacao) username)))
                   else if action = ''atualizarIP'' then
                     let novoIP = fst (assert_string (payload ''novo_ip''))
                     in Inr (Exec d (UpdateIPExact novoIP username))
                   else Inl (jsonResponse w 400 \<lparr>Message = msg_unknown_action, Data = NoData\<rparr>))
            in case switch of
                 Inl w' \<Rightarrow> (d, w')
               | Inr (d', Inl err) \<Rightarrow>
                   (d', jsonResponse w 500 \<lparr>Message = msg_exec_error action err, Data = NoData\<rparr>)
               | Inr (d', Inr rowsAffected) \<Rightarrow>
                   if rowsAffected = 0 then
                     (d', jsonResponse w 404 \<lparr>Message = msg_not_found, Data = NoData\<rparr>)
                   else
                     (d', jsonResponse w 200 \<lparr>Message = msg_success action, Data = NoData\<rparr>))"

subsection \<open>Notions the properties are stated with\<close>

text \<open>
  Two usernames differ only in letter case when they have the same length and, position by
  position, hold the same byte or the two cases of one ASCII letter.
\<close>

definition same_letter :: "char \<Rightarrow> char \<Rightarrow> bool" where
  "same_letter a b \<longleftrightarrow> a = b \<or> (a, b) \<in> set case_pairs \<or> (b, a) \<in> set case_pairs"

definition differ_only_in_case :: "string \<Rightarrow> string \<Rightarrow> bool" where
  "differ_only_in_case u v \<longleftrightarrow> list_all2 same_letter u v"

text \<open>The six action tags of the \<^verbatim>\<open>switch\<close>.\<close>

definition recognized :: "string list" where
  "recognized =
     [''inserirUsuario'', ''atualizarSenha'', ''bloquearUsuario'', ''atualizarRenovacao'',
      ''atualizarIndicacao'', ''atualizarIP'']"

text \<open>Concrete inputs on which the theorems below are exercised.\<close>

definition fresh_writer :: ResponseWriter where
  "fresh_writer = \<lparr>Header = Map.empty, StatusCodes = [], Written = []\<rparr>"

definition alice :: user_row where
  "alice =
     \<lparr>id_col = 1, username_col = ''alice'', password_col = ''pw'', is_blocked_col = False,
      renewal_date_col = ''2025-01-01'', ip_col = None, indicacao_col = 0\<rparr>"

definition example_db :: db where
  "example_db = \<lparr>rows = [alice], next_id = 2, fault = None, sent = []\<rparr>"

definition post :: "payload \<Rightarrow> Request" where
  "post p = \<lparr>Method = ''POST'', Body = Some p\<rparr>"

text \<open>
  One implementation's choice for an out-of-range conversion: the smallest \<^verbatim>\<open>int\<close>
  (what the conversion instruction of amd64 returns).
\<close>

definition amd64_impl :: "real \<Rightarrow> go_int" where
  "amd64_impl x = word_of_int (- (2 ^ 63))"

text \<open>
  The handler in two pieces, for the proofs: the statement its \<^verbatim>\<open>switch\<close> sends for
  a payload (\<open>None\<close> where the \<^verbatim>\<open>switch\<close> returns from the handler), and the code
  after the \<^verbatim>\<open>switch\<close>. Lemma \<open>handler_factored\<close> below shows that the handler is
  their composition.
\<close>

definition stmt_of :: "(real \<Rightarrow> go_int) \<Rightarrow> payload \<Rightarrow> stmt option" where
  "stmt_of impl p =
     (let a = fst (assert_string (p ''action'')); u = fst (assert_string (p ''username''))
      in if a = ''inserirUsuario'' then
           Some (InsertUser u (fst (assert_string (p ''password'')))
                   (fst (assert_string (p ''renewal_date''))))
         else if a = ''atualizarSenha'' then
           Some (UpdatePassword (fst (assert_string (p ''new_password''))) u)
         else if a = ''bloquearUsuario'' then
           Some (UpdateBlocked (fst (assert_bool (p ''is_blocked''))) u)
         else if a = ''atualizarRenovacao'' then
           Some (UpdateRenewal (fst (assert_string (p ''renewal_date''))) u)
         else if a = ''atualizarIndicacao'' then
           (if snd (assert_float64 (p ''indicacao''))
            then Some (UpdateIndicacao
                         (int_of_float64 impl (fst (assert_float64 (p ''indicacao'')))) u)
            else None)
         else if a = ''atualizarIP'' then
           Some (UpdateIP (fst (assert_string (p ''novo_ip''))) u)
         else None)"

definition respond ::
  "string \<Rightarrow> ResponseWriter \<Rightarrow> db \<times> (string + nat) \<Rightarrow> db \<times> ResponseWriter" where
  "respond a w res =
     (case res of
        (d', Inl err) \<Rightarrow>
          (d', jsonResponse w 500 \<lparr>Message = msg_exec_error a err, Data = NoData\<rparr>)
      | (d', Inr n) \<Rightarrow>
          if n = 0 then (d', jsonResponse w 404 \<lparr>Message = msg_not_found, Data = NoData\<rparr>)
          else (d', jsonResponse w 200 \<lparr>Message = msg_success a, Data = NoData\<rparr>))"

definition fractional :: payload where
  "fractional =
     [''action'' \<mapsto> JString ''atualizarIndicacao'', ''username'' \<mapsto> JString ''Alice'',
      ''indicacao'' \<mapsto> JNumber (7 / 2)]"

definition huge :: payload where
  "huge =
     [''action'' \<mapsto> JString ''atualizarIndicacao'', ''username'' \<mapsto> JString ''Alice'',
      ''indicacao'' \<mapsto> JNumber 10000000000000000000]"

definition not_a_number :: payload where
  "not_a_number =
     [''action'' \<mapsto> JString ''atualizarIndicacao'', ''username'' \<mapsto> JString ''Alice'',
      ''indicacao'' \<mapsto> JString ''3.5'']"

definition block_bob :: payload where
  "block_bob =
     [''action'' \<mapsto> JString ''bloquearUsuario'', ''username'' \<mapsto> JString ''bob'',
      ''is_blocked'' \<mapsto> JBool True]"

definition block_Alice :: payload where
  "block_Alice =
     [''action'' \<mapsto> JString ''bloquearUsuario'', ''username'' \<mapsto> JString ''Alice'',
      ''is_blocked'' \<mapsto> JBool True]"

text \<open>The five action tags that update a record.\<close>

definition updating :: "string list" where
  "updating =
     [''atualizarSenha'', ''bloquearUsuario'', ''atualizarRenovacao'', ''atualizarIndicacao'',
      ''atualizarIP'']"

definition create_Alice :: payload where
  "create_Alice =
     [''action'' \<mapsto> JString ''inserirUsuario'', ''username'' \<mapsto> JString ''Alice'',
      ''password'' \<mapsto> JString ''p'', ''renewal_date'' \<mapsto> JString ''2025-01-01'']"

definition create_bob :: payload where
  "create_bob =
     [''action'' \<mapsto> JString ''inserirUsuario'', ''username'' \<mapsto> JString ''bob'',
      ''password'' \<mapsto> JString ''p'', ''renewal_date'' \<mapsto> JString ''2025-01-01'']"

text \<open>Payloads that leave a field out or give it another type.\<close>

definition password_missing :: payload where
  "password_missing =
     [''action'' \<mapsto> JString ''atualizarSenha'', ''username'' \<mapsto> JString ''alice'']"

definition blocked_mistyped :: payload where
  "blocked_mistyped =
     [''action'' \<mapsto> JString ''bloquearUsuario'', ''username'' \<mapsto> JString ''alice'',
      ''is_blocked'' \<mapsto> JString ''true'']"

text \<open>The member names of every object in a JSON tree.\<close>

primrec object_keys :: "jvalue \<Rightarrow> string list" where
  "object_keys JNil = []"
| "object_keys (JBool b) = []"
| "object_keys (JNumber x) = []"
| "object_keys (JString s) = []"
| "object_keys (JArray vs) = concat (map object_keys vs)"
| "object_keys (JObject kvs) =
     concat (map (\<lambda>kv. fst kv # snd kv) (map (map_prod id object_keys) kvs))"

text \<open>Two rows that differ at most in the password.\<close>

definition same_but_password :: "user_row \<Rightarrow> user_row \<Rightarrow> bool" where
  "same_but_password a b \<longleftrightarrow> b = a\<lparr>password_col := password_col b\<rparr>"

definition get_request :: Request where
  "get_request = \<lparr>Method = ''GET'', Body = None\<rparr>"

text \<open>What the handler's answer and the resulting rows owe to a statement's execution.\<close>

definition outcome :: "db \<times> (string + nat) \<Rightarrow> user_row list \<times> (string + nat)" where
  "outcome res = (rows (fst res), snd res)"

definition block_alice :: payload where
  "block_alice =
     [''action'' \<mapsto> JString ''bloquearUsuario'', ''username'' \<mapsto> JString ''alice'',
      ''is_blocked'' \<mapsto> JBool True]"

subsection \<open>The spec's reading of a request\<close>

text \<open>
  These definitions follow the spec's words, not the code; the theorems below compare the
  handler with them. A payload field that is missing or of another JSON type counts as the
  zero value of its type, the empty string or \<open>false\<close>; the referral counter alone has no
  zero value to fall back on.
\<close>

definition string_or_zero :: "jvalue option \<Rightarrow> string" where
  "string_or_zero v = (case v of Some (JString s) \<Rightarrow> s | _ \<Rightarrow> [])"

definition bool_or_zero :: "jvalue option \<Rightarrow> bool" where
  "bool_or_zero v = (case v of Some (JBool b) \<Rightarrow> b | _ \<Rightarrow> False)"

definition number_of :: "jvalue option \<Rightarrow> real option" where
  "number_of v = (case v of Some (JNumber x) \<Rightarrow> Some x | _ \<Rightarrow> None)"

text \<open>
  The spec's table of actions (section 4.1): the one statement a payload asks for, with
  each field read as above. \<open>None\<close> is the validation error: the action tag is none of the
  six, or the action is \<open>atualizarIndicacao\<close> and \<open>indicacao\<close> is not a number.
\<close>

definition spec_statement :: "(real \<Rightarrow> go_int) \<Rightarrow> payload \<Rightarrow> stmt option" where
  "spec_statement impl p =
     (let a = string_or_zero (p ''action''); u = string_or_zero (p ''username'')
      in if a = ''inserirUsuario'' then
           Some (InsertUser u (string_or_zero (p ''password''))
                   (string_or_zero (p ''renewal_date'')))
         else if a = ''atualizarSenha'' then
           Some (UpdatePassword (string_or_zero (p ''new_password'')) u)
         else if a = ''bloquearUsuario'' then
           Some (UpdateBlocked (bool_or_zero (p ''is_blocked'')) u)
         else if a = ''atualizarRenovacao'' then
           Some (UpdateRenewal (string_or_zero (p ''renewal_date'')) u)
         else if a = ''atualizarIndicacao'' then
           (case number_of (p ''indicacao'') of
              None \<Rightarrow> None
            | Some x \<Rightarrow> Some (UpdateIndicacao (int_of_float64 impl x) u))
         else if a = ''atualizarIP'' then
           Some (UpdateIP (string_or_zero (p ''novo_ip'')) u)
         else None)"

text \<open>
  The spec's outcomes (sections 4.2 and 7) and their status codes. A request that is not a
  POST is refused for its method; an undecodable body or a payload without a statement is a
  validation error; otherwise the outcome is the store's: its error, no row affected, or
  some row affected.
\<close>

datatype outcome_class = WrongMethod | ValidationError | ExecutionError | NotFound | Success

fun status_of :: "outcome_class \<Rightarrow> int" where
  "status_of WrongMethod = 405"
| "status_of ValidationError = 400"
| "status_of ExecutionError = 500"
| "status_of NotFound = 404"
| "status_of Success = 200"

definition request_class :: "(real \<Rightarrow> go_int) \<Rightarrow> db \<Rightarrow> Request \<Rightarrow> outcome_class" where
  "request_class impl d r =
     (if Method r \<noteq> ''POST'' then WrongMethod
      else case Body r of
             None \<Rightarrow> ValidationError
           | Some p \<Rightarrow>
               (case spec_statement impl p of
                  None \<Rightarrow> ValidationError
                | Some s \<Rightarrow>
                    (case snd (Exec d s) of
                       Inl err \<Rightarrow> ExecutionError
                     | Inr n \<Rightarrow> if n = 0 then NotFound else Success)))"

definition delete_everything :: payload where
  "delete_everything = [''action'' \<mapsto> JString ''deleteEverything'']"

definition undecodable :: Request where
  "undecodable = \<lparr>Method = ''POST'', Body = None\<rparr>"

section \<open>Properties\<close>

subsection \<open>Auxiliary facts\<close>

lemma lower_char_pair: "(a, b) \<in> set case_pairs \<Longrightarrow> lower_char a = b \<and> lower_char b = b"
  unfolding case_pairs_def lower_char_def
  apply simp
  apply (elim disjE conjE)
  apply simp_all
  done

lemma same_letter_lower: "same_letter a b \<Longrightarrow> lower_char a = lower_char b"
  unfolding same_letter_def using lower_char_pair [of a b] lower_char_pair [of b a] by auto

lemma differ_only_in_case_LOWER: "differ_only_in_case u v \<Longrightarrow> LOWER u = LOWER v"
  unfolding differ_only_in_case_def LOWER_def
  by (induction u v rule: list_all2_induct) (auto dest: same_letter_lower)

lemma LOWER_Alice: "LOWER ''Alice'' = ''alice''"
  by (simp add: LOWER_def lower_char_def case_pairs_def)

lemma LOWER_alice: "LOWER ''alice'' = ''alice''"
  by (simp add: LOWER_def lower_char_def case_pairs_def)

lemma matches_alice: "matches ''Alice'' alice" "matches ''alice'' alice"
  by (simp_all add: matches_def alice_def LOWER_Alice LOWER_alice)

text \<open>The exact comparison tells the two spellings apart.\<close>

lemma matches_exact_alice: "matches_exact ''alice'' alice" "\<not> matches_exact ''Alice'' alice"
  by (simp_all add: matches_exact_def alice_def)

lemma sent_run_stmt: "sent (fst (run_stmt s d)) = sent d"
  by (cases s) (simp_all add: update_where_def update_exact_def)

lemma sent_Exec: "sent (fst (Exec d s)) = sent d @ [s]"
  by (simp add: Exec_def Let_def sent_run_stmt split: option.splits)

lemma handler_factored:
  assumes "Method r = ''POST''" and "Body r = Some p"
  shows "userActionsHandler impl d w r =
     (case stmt_of impl p of
        Some s \<Rightarrow> respond (fst (assert_string (p ''action''))) w (Exec d s)
      | None \<Rightarrow>
          (d, jsonResponse w 400
                \<lparr>Message = (if fst (assert_string (p ''action'')) = ''atualizarIndicacao''
                             then msg_bad_indicacao else msg_unknown_action),
                 Data = NoData\<rparr>))"
proof -
  let ?a = "fst (assert_string (p ''action''))"
  obtain x ok where f: "assert_float64 (p ''indicacao'') = (x, ok)"
    by (cases "assert_float64 (p ''indicacao'')")
  consider "?a = ''inserirUsuario''" | "?a = ''atualizarSenha''" | "?a = ''bloquearUsuario''"
    | "?a = ''atualizarRenovacao''" | "?a = ''atualizarIndicacao''" | "?a = ''atualizarIP''"
    | "?a \<notin> set recognized"
    by (auto simp: recognized_def)
  then show ?thesis
  proof cases
    case 1 with assms show ?thesis
      by (simp add: userActionsHandler_def stmt_of_def respond_def Let_def)
  next
    case 2 with assms show ?thesis
      by (simp add: userActionsHandler_def stmt_of_def respond_def Let_def)
  next
    case 3 with assms show ?thesis
      by (simp add: userActionsHandler_def stmt_of_def respond_def Let_def)
  next
    case 4 with assms show ?thesis
      by (simp add: userActionsHandler_def stmt_of_def respond_def Let_def)
  next
    case 5 with assms f show ?thesis
      by (simp add: userActionsHandler_def stmt_of_def respond_def Let_def)
  next
    case 6 with assms show ?thesis
      by (simp add: userActionsHandler_def stmt_of_def respond_def Let_def)
  next
    case 7 with assms show ?thesis
      by (simp add: userActionsHandler_def stmt_of_def recognized_def Let_def)
  qed
qed

lemma fst_respond: "fst (respond a w res) = fst res"
  by (simp add: respond_def split: prod.splits sum.splits)

lemma not_number: "(\<forall>x. v \<noteq> Some (JNumber x)) \<Longrightarrow> assert_float64 v = (0, False)"
  by (cases v rule: assert_float64.cases) simp_all

lemma not_string: "(\<forall>s. v \<noteq> Some (JString s)) \<Longrightarrow> assert_string v = ([], False)"
  by (cases v rule: assert_string.cases) simp_all

lemma not_bool: "(\<forall>b. v \<noteq> Some (JBool b)) \<Longrightarrow> assert_bool v = (False, False)"
  by (cases v rule: assert_bool.cases) auto

subsection \<open>Unknown actions\<close>

text \<open>
  C6. A POST whose decoded payload carries an action tag that is none of the six recognized
  strings (a missing or non-string tag reads as the empty string) is answered with status
  400 and the unknown-action message, and the database is returned as it was: rows,
  sequence and the list of statements sent are all unchanged.
\<close>

theorem unknown_action_rejected:
  assumes "Method r = ''POST''" and "Body r = Some p"
    and "fst (assert_string (p ''action'')) \<notin> set recognized"
  shows "userActionsHandler impl d w r =
           (d, jsonResponse w 400 \<lparr>Message = msg_unknown_action, Data = NoData\<rparr>)"
  using assms by (simp add: userActionsHandler_def recognized_def Let_def)

theorem unknown_action_rejected_witness:
  "Method (post [''action'' \<mapsto> JString ''deleteEverything'']) = ''POST'' \<and>
   Body (post [''action'' \<mapsto> JString ''deleteEverything'']) =
     Some [''action'' \<mapsto> JString ''deleteEverything''] \<and>
   fst (assert_string ([''action'' \<mapsto> JString ''deleteEverything''] ''action'')) \<notin> set recognized \<and>
   userActionsHandler amd64_impl example_db fresh_writer
     (post [''action'' \<mapsto> JString ''deleteEverything'']) =
     (example_db,
      jsonResponse fresh_writer 400 \<lparr>Message = msg_unknown_action, Data = NoData\<rparr>) \<and>
   StatusCodes (jsonResponse fresh_writer 400 \<lparr>Message = msg_unknown_action, Data = NoData\<rparr>) =
     [400]"
proof -
  have m: "Method (post [''action'' \<mapsto> JString ''deleteEverything'']) = ''POST''"
    and b: "Body (post [''action'' \<mapsto> JString ''deleteEverything'']) =
      Some [''action'' \<mapsto> JString ''deleteEverything'']"
    by (simp_all add: post_def)
  have a: "fst (assert_string ([''action'' \<mapsto> JString ''deleteEverything''] ''action''))
      \<notin> set recognized"
    by (simp add: recognized_def)
  show ?thesis
    using m b a unknown_action_rejected [OF m b a, of amd64_impl example_db fresh_writer]
    by (simp add: jsonResponse_def fresh_writer_def)
qed

lemma post_simps: "Method (post p) = ''POST''" "Body (post p) = Some p"
  by (simp_all add: post_def)

lemma sint_fits: "fits_int t \<Longrightarrow> sint (word_of_int t :: go_int) = t"
  by (simp add: fits_int_def sint_sbintrunc' signed_take_bit_int_eq_self)

lemma sint_range64: "fits_int (sint (v :: go_int))"
  using sint_ge [of v] sint_lt [of v] by (simp add: fits_int_def)

text \<open>Whatever the implementation returns for a value out of range, it is not the truncation.\<close>

lemma out_of_range_differs:
  "\<not> fits_int (trunc x) \<Longrightarrow> sint (int_of_float64 impl x) \<noteq> trunc x"
  using sint_range64 [of "int_of_float64 impl x"] by auto

lemma trunc_7_2: "trunc (7 / 2) = 3"
  by (simp add: trunc_def)

lemma trunc_minus_29_10: "trunc (- (29 / 10)) = - 2"
  by (simp add: trunc_def)

lemma conv_7_2: "int_of_float64 impl (7 / 2) = 3"
  by (simp add: int_of_float64_def trunc_7_2 fits_int_def)

lemma conv_minus_29_10: "int_of_float64 impl (- (29 / 10)) = - 2"
  by (simp add: int_of_float64_def trunc_minus_29_10 fits_int_def)

lemma trunc_big: "trunc 10000000000000000000 = 10000000000000000000"
  by (simp add: trunc_def)

lemma conv_big: "int_of_float64 amd64_impl 10000000000000000000 = - 9223372036854775808"
  by (simp add: int_of_float64_def trunc_big fits_int_def amd64_impl_def)

lemma Exec_update_alice:
  "Exec example_db (UpdateIndicacao v ''Alice'') =
     (example_db\<lparr>rows := [alice\<lparr>indicacao_col := v\<rparr>],
                 sent := [UpdateIndicacao v ''Alice'']\<rparr>, Inr 1)"
  by (simp add: Exec_def example_db_def update_where_def matches_alice)

lemma stmt_of_fractional: "stmt_of impl fractional = Some (UpdateIndicacao 3 ''Alice'')"
  by (simp add: stmt_of_def fractional_def conv_7_2)

lemma stmt_of_huge:
  "stmt_of amd64_impl huge = Some (UpdateIndicacao (- 9223372036854775808) ''Alice'')"
  by (simp add: stmt_of_def huge_def conv_big)

lemma handler_sends:
  assumes "Method r = ''POST''" and "Body r = Some p" and "stmt_of impl p = Some s"
  shows "fst (userActionsHandler impl d w r) = fst (Exec d s)"
  by (simp add: handler_factored [OF assms(1,2)] assms(3) fst_respond)

lemma stmt_of_indicacao:
  assumes "fst (assert_string (p ''action'')) = ''atualizarIndicacao''"
    and "p ''indicacao'' = Some (JNumber x)"
  shows "stmt_of impl p =
           Some (UpdateIndicacao (int_of_float64 impl x) (fst (assert_string (p ''username''))))"
  using assms by (simp add: stmt_of_def)

subsection \<open>Validation of the referral counter\<close>

text \<open>
  C1, as the claim has it, fails: a POST setting \<open>indicacao\<close> to 3.5 for the stored user
  \<open>alice\<close> is answered with status 200, the \<^verbatim>\<open>UPDATE\<close> is sent with the parameter 3,
  and the row's counter changes from 0 to 3.
\<close>

theorem fractional_indicacao_counterexample:
  "userActionsHandler amd64_impl example_db fresh_writer (post fractional) =
     (example_db\<lparr>rows := [alice\<lparr>indicacao_col := 3\<rparr>],
                 sent := [UpdateIndicacao 3 ''Alice'']\<rparr>,
      jsonResponse fresh_writer 200
        \<lparr>Message = msg_success ''atualizarIndicacao'', Data = NoData\<rparr>)"
  by (simp add: handler_factored [OF post_simps] stmt_of_fractional Exec_update_alice respond_def)
     (simp add: fractional_def)

text \<open>
  C1, amended. For the action \<open>atualizarIndicacao\<close>: when the payload's \<open>indicacao\<close> is
  missing or is not a JSON number, the handler answers 400 with the invalid-value message at
  once and the database is returned as it was (nothing sent, no row changed); when it is a
  JSON number, whole or not, the \<^verbatim>\<open>UPDATE\<close> is sent with that number converted to
  \<^verbatim>\<open>int\<close>.
\<close>

theorem indicacao_type_checked:
  assumes "Method r = ''POST''" and "Body r = Some p"
    and "fst (assert_string (p ''action'')) = ''atualizarIndicacao''"
  shows "((\<forall>x. p ''indicacao'' \<noteq> Some (JNumber x)) \<longrightarrow>
            userActionsHandler impl d w r =
              (d, jsonResponse w 400 \<lparr>Message = msg_bad_indicacao, Data = NoData\<rparr>)) \<and>
         (\<forall>x. p ''indicacao'' = Some (JNumber x) \<longrightarrow>
            sent (fst (userActionsHandler impl d w r)) =
              sent d @ [UpdateIndicacao (int_of_float64 impl x)
                          (fst (assert_string (p ''username'')))])"
proof (intro conjI impI allI)
  assume "\<forall>x. p ''indicacao'' \<noteq> Some (JNumber x)"
  then have "assert_float64 (p ''indicacao'') = (0, False)"
    by (rule not_number)
  then have "stmt_of impl p = None"
    using assms(3) by (simp add: stmt_of_def)
  then show "userActionsHandler impl d w r =
               (d, jsonResponse w 400 \<lparr>Message = msg_bad_indicacao, Data = NoData\<rparr>)"
    using assms(3) by (simp add: handler_factored [OF assms(1,2)])
next
  fix x assume "p ''indicacao'' = Some (JNumber x)"
  then show "sent (fst (userActionsHandler impl d w r)) =
               sent d @ [UpdateIndicacao (int_of_float64 impl x)
                           (fst (assert_string (p ''username'')))]"
    by (simp add: handler_sends [OF assms(1,2) stmt_of_indicacao [where p = p, OF assms(3)]] sent_Exec)
qed

theorem indicacao_type_checked_witness:
  "Method (post not_a_number) = ''POST'' \<and> Body (post not_a_number) = Some not_a_number \<and>
   fst (assert_string (not_a_number ''action'')) = ''atualizarIndicacao'' \<and>
   (\<forall>x. not_a_number ''indicacao'' \<noteq> Some (JNumber x)) \<and>
   userActionsHandler amd64_impl example_db fresh_writer (post not_a_number) =
     (example_db,
      jsonResponse fresh_writer 400 \<lparr>Message = msg_bad_indicacao, Data = NoData\<rparr>) \<and>
   Method (post fractional) = ''POST'' \<and> Body (post fractional) = Some fractional \<and>
   fst (assert_string (fractional ''action'')) = ''atualizarIndicacao'' \<and>
   fractional ''indicacao'' = Some (JNumber (7 / 2)) \<and>
   sent (fst (userActionsHandler amd64_impl example_db fresh_writer (post fractional))) =
     [UpdateIndicacao 3 ''Alice'']"
proof -
  have a1: "fst (assert_string (not_a_number ''action'')) = ''atualizarIndicacao''"
    and n1: "\<forall>x. not_a_number ''indicacao'' \<noteq> Some (JNumber x)"
    by (simp_all add: not_a_number_def)
  have a2: "fst (assert_string (fractional ''action'')) = ''atualizarIndicacao''"
    and n2: "fractional ''indicacao'' = Some (JNumber (7 / 2))"
    and u2: "fst (assert_string (fractional ''username'')) = ''Alice''"
    by (simp_all add: fractional_def)
  have s: "sent example_db = []"
    by (simp add: example_db_def)
  have r1: "userActionsHandler amd64_impl example_db fresh_writer (post not_a_number) =
      (example_db,
       jsonResponse fresh_writer 400 \<lparr>Message = msg_bad_indicacao, Data = NoData\<rparr>)"
    using n1
      indicacao_type_checked [where p = not_a_number and impl = amd64_impl and d = example_db
        and w = fresh_writer, OF post_simps a1]
    by blast
  have r2: "sent (fst (userActionsHandler amd64_impl example_db fresh_writer (post fractional))) =
      sent example_db @ [UpdateIndicacao (int_of_float64 amd64_impl (7 / 2))
                           (fst (assert_string (fractional ''username'')))]"
    using n2
      indicacao_type_checked [where p = fractional and impl = amd64_impl and d = example_db
        and w = fresh_writer, OF post_simps a2]
    by blast
  show ?thesis
    using a1 n1 a2 n2 r1 r2 by (simp add: post_simps u2 s conv_7_2)
qed

subsection \<open>Conversion of the referral counter\<close>

text \<open>
  C10, as the claim has it, fails for numbers whose truncation does not fit a 64-bit
  \<^verbatim>\<open>int\<close>: with \<open>indicacao\<close> = 1e19 the request passes validation, and the value
  sent and stored is one the implementation picks (here the smallest \<^verbatim>\<open>int\<close>), not
  10000000000000000000. By \<open>out_of_range_differs\<close> no implementation can do otherwise.
\<close>

theorem huge_indicacao_counterexample:
  "userActionsHandler amd64_impl example_db fresh_writer (post huge) =
     (example_db\<lparr>rows := [alice\<lparr>indicacao_col := - 9223372036854775808\<rparr>],
                 sent := [UpdateIndicacao (- 9223372036854775808) ''Alice'']\<rparr>,
      jsonResponse fresh_writer 200
        \<lparr>Message = msg_success ''atualizarIndicacao'', Data = NoData\<rparr>) \<and>
   sint (- 9223372036854775808 :: go_int) = - 9223372036854775808 \<and>
   trunc 10000000000000000000 = 10000000000000000000"
  by (simp add: handler_factored [OF post_simps] stmt_of_huge Exec_update_alice respond_def trunc_big)
     (simp add: huge_def)

text \<open>
  C10, amended. For the action \<open>atualizarIndicacao\<close>, every payload whose \<open>indicacao\<close> is a
  JSON number passes validation: the \<^verbatim>\<open>UPDATE\<close> is sent with the converted number and,
  when the connection works, every row matching the username gets that value. Whenever the
  truncation of the number towards zero fits a 64-bit \<^verbatim>\<open>int\<close>, the converted number is
  that truncation (3.5 gives 3, -2.9 gives -2).
\<close>

theorem indicacao_truncated:
  assumes "Method r = ''POST''" and "Body r = Some p"
    and "fst (assert_string (p ''action'')) = ''atualizarIndicacao''"
    and "p ''indicacao'' = Some (JNumber x)"
  shows "sent (fst (userActionsHandler impl d w r)) =
           sent d @ [UpdateIndicacao (int_of_float64 impl x)
                       (fst (assert_string (p ''username'')))] \<and>
         (fault d = None \<longrightarrow>
            rows (fst (userActionsHandler impl d w r)) =
              map (\<lambda>row. if matches (fst (assert_string (p ''username''))) row
                          then row\<lparr>indicacao_col := int_of_float64 impl x\<rparr> else row)
                  (rows d)) \<and>
         (fits_int (trunc x) \<longrightarrow> sint (int_of_float64 impl x) = trunc x)"
proof (intro conjI impI)
  note h = handler_sends [OF assms(1,2) stmt_of_indicacao [where p = p, OF assms(3,4)]]
  show "sent (fst (userActionsHandler impl d w r)) =
          sent d @ [UpdateIndicacao (int_of_float64 impl x)
                      (fst (assert_string (p ''username'')))]"
    by (simp add: h sent_Exec)
  show "rows (fst (userActionsHandler impl d w r)) =
          map (\<lambda>row. if matches (fst (assert_string (p ''username''))) row
                      then row\<lparr>indicacao_col := int_of_float64 impl x\<rparr> else row)
              (rows d)" if "fault d = None"
    using that by (simp add: h Exec_def update_where_def)
  show "sint (int_of_float64 impl x) = trunc x" if "fits_int (trunc x)"
    using that by (simp add: int_of_float64_def sint_fits)
qed

theorem indicacao_truncated_witness:
  "Method (post fractional) = ''POST'' \<and> Body (post fractional) = Some fractional \<and>
   fst (assert_string (fractional ''action'')) = ''atualizarIndicacao'' \<and>
   fractional ''indicacao'' = Some (JNumber (7 / 2)) \<and>
   fault example_db = None \<and> fits_int (trunc (7 / 2)) \<and>
   sent (fst (userActionsHandler amd64_impl example_db fresh_writer (post fractional))) =
     [UpdateIndicacao 3 ''Alice''] \<and>
   rows (fst (userActionsHandler amd64_impl example_db fresh_writer (post fractional))) =
     [alice\<lparr>indicacao_col := 3\<rparr>] \<and>
   sint (3 :: go_int) = trunc (7 / 2)"
proof -
  have a: "fst (assert_string (fractional ''action'')) = ''atualizarIndicacao''"
    and n: "fractional ''indicacao'' = Some (JNumber (7 / 2))"
    and u: "fst (assert_string (fractional ''username'')) = ''Alice''"
    by (simp_all add: fractional_def)
  have e: "fault example_db = None" "sent example_db = []" "rows example_db = [alice]"
    by (simp_all add: example_db_def)
  have f: "fits_int (trunc (7 / 2))"
    by (simp add: trunc_7_2 fits_int_def)
  show ?thesis
    using a n e(1) f
      indicacao_truncated [where p = fractional and impl = amd64_impl and d = example_db
        and w = fresh_writer, OF post_simps a n]
    by (simp add: post_simps u e conv_7_2 matches_alice)
qed





lemma LOWER_bob: "LOWER ''bob'' = ''bob''"
  by (simp add: LOWER_def lower_char_def case_pairs_def)

lemma not_matches_bob: "\<not> matches ''bob'' alice"
  by (simp add: matches_def alice_def LOWER_bob LOWER_alice)

lemma stmt_of_block_bob: "stmt_of impl block_bob = Some (UpdateBlocked True ''bob'')"
  by (simp add: stmt_of_def block_bob_def)

lemma stmt_of_block_Alice: "stmt_of impl block_Alice = Some (UpdateBlocked True ''Alice'')"
  by (simp add: stmt_of_def block_Alice_def)

lemma Exec_block_bob:
  "Exec example_db (UpdateBlocked True ''bob'') =
     (example_db\<lparr>sent := [UpdateBlocked True ''bob'']\<rparr>, Inr 0)"
  by (simp add: Exec_def example_db_def update_where_def not_matches_bob)

lemma Exec_block_Alice:
  "Exec example_db (UpdateBlocked True ''Alice'') =
     (example_db\<lparr>rows := [alice\<lparr>is_blocked_col := True\<rparr>],
                 sent := [UpdateBlocked True ''Alice'']\<rparr>, Inr 1)"
  by (simp add: Exec_def example_db_def update_where_def matches_alice)

subsection \<open>The affected-row count decides between not-found and success\<close>



lemma matches_cong: "LOWER u1 = LOWER u2 \<Longrightarrow> matches u1 = matches u2"
  by (rule ext) (simp add: matches_def)

lemma update_where_cong: "LOWER u1 = LOWER u2 \<Longrightarrow> update_where u1 f rs = update_where u2 f rs"
  by (simp add: update_where_def matches_cong [of u1 u2])

lemma respond_outcome:
  "outcome res1 = outcome res2 \<Longrightarrow>
     snd (respond a w res1) = snd (respond a w res2) \<and>
     rows (fst (respond a w res1)) = rows (fst (respond a w res2))"
  by (cases res1; cases res2) (auto simp: outcome_def respond_def split: sum.splits)

lemma Exec_outcome_cong:
  assumes "LOWER u1 = LOWER u2"
  shows "outcome (Exec d (UpdatePassword v u1)) = outcome (Exec d (UpdatePassword v u2))"
    and "outcome (Exec d (UpdateBlocked b u1)) = outcome (Exec d (UpdateBlocked b u2))"
    and "outcome (Exec d (UpdateRenewal v u1)) = outcome (Exec d (UpdateRenewal v u2))"
    and "outcome (Exec d (UpdateIndicacao n u1)) = outcome (Exec d (UpdateIndicacao n u2))"
    and "outcome (Exec d (UpdateIP v u1)) = outcome (Exec d (UpdateIP v u2))"
  by (simp_all add: outcome_def Exec_def Let_def update_where_cong [OF assms] case_prod_beta
        split: option.splits)

subsection \<open>Updates find their record whatever the case of the username\<close>

text \<open>
  The handler of lines 272--337 does what claim C2 asks. For each of the five updating
  actions, every database and every payload, two requests that differ only in the letter
  case of the username are answered alike (same status, same message, hence the same
  affected-row outcome) and leave the same rows. In particular a username that differs from
  a stored one only in letter case does what the stored spelling does.
\<close>

theorem case_insensitive_target:
  assumes "differ_only_in_case u1 u2"
    and "p ''action'' = Some (JString a)" and "a \<in> set updating"
  shows "snd (userActionsHandler impl d w (post (p(''username'' \<mapsto> JString u1)))) =
           snd (userActionsHandler impl d w (post (p(''username'' \<mapsto> JString u2)))) \<and>
         rows (fst (userActionsHandler impl d w (post (p(''username'' \<mapsto> JString u1))))) =
           rows (fst (userActionsHandler impl d w (post (p(''username'' \<mapsto> JString u2)))))"
proof -
  note L = differ_only_in_case_LOWER [OF assms(1)]
  let ?p1 = "p(''username'' \<mapsto> JString u1)" and ?p2 = "p(''username'' \<mapsto> JString u2)"
  obtain x ok where f: "assert_float64 (p ''indicacao'') = (x, ok)"
    by (cases "assert_float64 (p ''indicacao'')")
  consider "a = ''atualizarSenha''" | "a = ''bloquearUsuario''" | "a = ''atualizarRenovacao''"
    | "a = ''atualizarIndicacao''" | "a = ''atualizarIP''"
    using assms(3) by (auto simp: updating_def)
  then show ?thesis
  proof cases
    case 1
    with assms(2) have "stmt_of impl ?p1 =
        Some (UpdatePassword (fst (assert_string (p ''new_password''))) u1)"
      and "stmt_of impl ?p2 = Some (UpdatePassword (fst (assert_string (p ''new_password''))) u2)"
      by (simp_all add: stmt_of_def)
    then show ?thesis
      using respond_outcome [OF Exec_outcome_cong(1) [OF L]]
      by (simp add: handler_factored [OF post_simps] assms(2))
  next
    case 2
    with assms(2) have "stmt_of impl ?p1 =
        Some (UpdateBlocked (fst (assert_bool (p ''is_blocked''))) u1)"
      and "stmt_of impl ?p2 = Some (UpdateBlocked (fst (assert_bool (p ''is_blocked''))) u2)"
      by (simp_all add: stmt_of_def)
    then show ?thesis
      using respond_outcome [OF Exec_outcome_cong(2) [OF L]]
      by (simp add: handler_factored [OF post_simps] assms(2))
  next
    case 3
    with assms(2) have "stmt_of impl ?p1 =
        Some (UpdateRenewal (fst (assert_string (p ''renewal_date''))) u1)"
      and "stmt_of impl ?p2 = Some (UpdateRenewal (fst (assert_string (p ''renewal_date''))) u2)"
      by (simp_all add: stmt_of_def)
    then show ?thesis
      using respond_outcome [OF Exec_outcome_cong(3) [OF L]]
      by (simp add: handler_factored [OF post_simps] assms(2))
  next
    case 4
    show ?thesis
    proof (cases ok)
      case True
      with 4 f assms(2) have "stmt_of impl ?p1 = Some (UpdateIndicacao (int_of_float64 impl x) u1)"
        and "stmt_of impl ?p2 = Some (UpdateIndicacao (int_of_float64 impl x) u2)"
        by (simp_all add: stmt_of_def)
      then show ?thesis
        using respond_outcome [OF Exec_outcome_cong(4) [OF L]]
        by (simp add: handler_factored [OF post_simps] assms(2))
    next
      case False
      with 4 f assms(2) have "stmt_of impl ?p1 = None" and "stmt_of impl ?p2 = None"
        by (simp_all add: stmt_of_def)
      then show ?thesis
        by (simp add: handler_factored [OF post_simps] assms(2))
    qed
  next
    case 5
    with assms(2) have "stmt_of impl ?p1 =
        Some (UpdateIP (fst (assert_string (p ''novo_ip''))) u1)"
      and "stmt_of impl ?p2 = Some (UpdateIP (fst (assert_string (p ''novo_ip''))) u2)"
      by (simp_all add: stmt_of_def)
    then show ?thesis
      using respond_outcome [OF Exec_outcome_cong(5) [OF L]]
      by (simp add: handler_factored [OF post_simps] assms(2))
  qed
qed

lemma Alice_alice: "differ_only_in_case ''Alice'' ''alice''"
  by (simp add: differ_only_in_case_def same_letter_def case_pairs_def)

lemma block_Alice_upd:
  "block_Alice(''username'' \<mapsto> JString ''Alice'') = block_Alice"
  by (rule ext) (simp add: block_Alice_def)

theorem case_insensitive_target_witness:
  "differ_only_in_case ''Alice'' ''alice'' \<and>
   block_Alice ''action'' = Some (JString ''bloquearUsuario'') \<and>
   ''bloquearUsuario'' \<in> set updating \<and>
   username_col alice = ''alice'' \<and> alice \<in> set (rows example_db) \<and>
   snd (userActionsHandler amd64_impl example_db fresh_writer
          (post (block_Alice(''username'' \<mapsto> JString ''alice'')))) =
     jsonResponse fresh_writer 200 \<lparr>Message = msg_success ''bloquearUsuario'', Data = NoData\<rparr> \<and>
   rows (fst (userActionsHandler amd64_impl example_db fresh_writer
          (post (block_Alice(''username'' \<mapsto> JString ''alice''))))) =
     [alice\<lparr>is_blocked_col := True\<rparr>]"
proof -
  have a: "block_Alice ''action'' = Some (JString ''bloquearUsuario'')"
    by (simp add: block_Alice_def)
  have u: "''bloquearUsuario'' \<in> set updating"
    by (simp add: updating_def)
  have h: "userActionsHandler amd64_impl example_db fresh_writer (post block_Alice) =
     (example_db\<lparr>rows := [alice\<lparr>is_blocked_col := True\<rparr>],
                 sent := [UpdateBlocked True ''Alice'']\<rparr>,
      jsonResponse fresh_writer 200
        \<lparr>Message = msg_success ''bloquearUsuario'', Data = NoData\<rparr>)"
    by (simp add: handler_factored [OF post_simps] stmt_of_block_Alice Exec_block_Alice
          respond_def a)
  show ?thesis
    using Alice_alice a u
      case_insensitive_target [where p = block_Alice and impl = amd64_impl and d = example_db
        and w = fresh_writer, OF Alice_alice a u]
    by (simp add: block_Alice_upd h) (simp add: alice_def example_db_def)
qed

lemma stmt_of_insert:
  "fst (assert_string (p ''action'')) = ''inserirUsuario'' \<Longrightarrow>
   stmt_of impl p =
     Some (InsertUser (fst (assert_string (p ''username'')))
             (fst (assert_string (p ''password'')))
             (fst (assert_string (p ''renewal_date''))))"
  by (simp add: stmt_of_def)

lemma Exec_insert:
  "Exec d (InsertUser u pw rd) =
     (case fault d of
        Some e \<Rightarrow> (d\<lparr>sent := sent d @ [InsertUser u pw rd]\<rparr>, Inl e)
      | None \<Rightarrow>
          if violates_unique (rows d) u
          then (d\<lparr>sent := sent d @ [InsertUser u pw rd]\<rparr>, Inl unique_violation)
          else (d\<lparr>sent := sent d @ [InsertUser u pw rd],
                  rows := rows d @ [new_row (next_id d) u pw rd],
                  next_id := next_id d + 1\<rparr>, Inr 1))"
  by (simp add: Exec_def Let_def split: option.splits)

subsection \<open>Creating a user whose name is taken\<close>

text \<open>
  C4. If the table holds a row whose username differs from the requested one at most in
  letter case, the create action is answered with status 500 and the execution-error
  message (carrying the store's error: the uniqueness violation, or the connection's error
  when the connection is broken), and the database keeps its rows and its id sequence: the
  only change is that the \<^verbatim>\<open>INSERT\<close> was sent.
\<close>

theorem duplicate_create_fails:
  assumes "Method r = ''POST''" and "Body r = Some p"
    and "fst (assert_string (p ''action'')) = ''inserirUsuario''"
    and "row \<in> set (rows d)"
    and "differ_only_in_case (username_col row) (fst (assert_string (p ''username'')))"
  shows "userActionsHandler impl d w r =
           (d\<lparr>sent := sent d @ [InsertUser (fst (assert_string (p ''username'')))
                                   (fst (assert_string (p ''password'')))
                                   (fst (assert_string (p ''renewal_date'')))]\<rparr>,
            jsonResponse w 500
              \<lparr>Message = msg_exec_error ''inserirUsuario''
                            (case fault d of None \<Rightarrow> unique_violation | Some e \<Rightarrow> e),
               Data = NoData\<rparr>)"
proof -
  have "matches (fst (assert_string (p ''username''))) row"
    using differ_only_in_case_LOWER [OF assms(5)] by (simp add: matches_def)
  with assms(4) have "violates_unique (rows d) (fst (assert_string (p ''username'')))"
    by (auto simp: violates_unique_def list_ex_iff)
  then show ?thesis
    by (simp add: handler_factored [OF assms(1,2)] stmt_of_insert [where p = p, OF assms(3)] Exec_insert
          respond_def assms(3) split: option.splits)
qed

lemma alice_Alice: "differ_only_in_case (username_col alice) ''Alice''"
  by (simp add: alice_def differ_only_in_case_def same_letter_def case_pairs_def)

theorem duplicate_create_fails_witness:
  "Method (post create_Alice) = ''POST'' \<and> Body (post create_Alice) = Some create_Alice \<and>
   fst (assert_string (create_Alice ''action'')) = ''inserirUsuario'' \<and>
   alice \<in> set (rows example_db) \<and>
   differ_only_in_case (username_col alice) (fst (assert_string (create_Alice ''username''))) \<and>
   userActionsHandler amd64_impl example_db fresh_writer (post create_Alice) =
     (example_db\<lparr>sent := [InsertUser ''Alice'' ''p'' ''2025-01-01'']\<rparr>,
      jsonResponse fresh_writer 500
        \<lparr>Message = msg_exec_error ''inserirUsuario'' unique_violation, Data = NoData\<rparr>)"
proof -
  have a: "fst (assert_string (create_Alice ''action'')) = ''inserirUsuario''"
    and f: "fst (assert_string (create_Alice ''username'')) = ''Alice''"
      "fst (assert_string (create_Alice ''password'')) = ''p''"
      "fst (assert_string (create_Alice ''renewal_date'')) = ''2025-01-01''"
    by (simp_all add: create_Alice_def)
  have i: "alice \<in> set (rows example_db)"
    by (simp add: example_db_def)
  have c: "differ_only_in_case (username_col alice)
      (fst (assert_string (create_Alice ''username'')))"
    using alice_Alice by (simp only: f)
  have e: "fault example_db = None" "sent example_db = []"
    by (simp_all add: example_db_def)
  show ?thesis
    using a i c
      duplicate_create_fails [where p = create_Alice and impl = amd64_impl and d = example_db
        and w = fresh_writer, OF post_simps a i c]
    by (simp add: post_simps f e)
qed

lemma ids_update_where:
  "(\<And>r. id_col (f r) = id_col r) \<Longrightarrow> map id_col (fst (update_where u f rs)) = map id_col rs"
  by (induction rs) (auto simp: update_where_def)

lemma ids_update_exact:
  "(\<And>r. id_col (f r) = id_col r) \<Longrightarrow> map id_col (fst (update_exact u f rs)) = map id_col rs"
  by (induction rs) (auto simp: update_exact_def)

lemma ids_run_update:
  "\<forall>u pw rd. s \<noteq> InsertUser u pw rd \<Longrightarrow>
     map id_col (rows (fst (run_stmt s d))) = map id_col (rows d)"
  by (cases s) (simp_all add: case_prod_beta ids_update_where ids_update_exact)

lemma ids_Exec_update:
  "\<forall>u pw rd. s \<noteq> InsertUser u pw rd \<Longrightarrow>
     map id_col (rows (fst (Exec d s))) = map id_col (rows d)"
  by (simp add: Exec_def Let_def ids_run_update split: option.splits)

lemma ids_Exec_prefix:
  "take (length (rows d)) (map id_col (rows (fst (Exec d s)))) = map id_col (rows d)"
proof (cases "\<forall>u pw rd. s \<noteq> InsertUser u pw rd")
  case True
  from ids_Exec_update [OF this, of d] have "length (rows (fst (Exec d s))) = length (rows d)"
    by (metis length_map)
  with ids_Exec_update [OF True, of d] show ?thesis
    by simp
next
  case False
  then show ?thesis
    by (auto simp: Exec_insert split: option.splits)
qed

lemma stmt_of_not_insert:
  "fst (assert_string (p ''action'')) \<noteq> ''inserirUsuario'' \<Longrightarrow> stmt_of impl p = Some s \<Longrightarrow>
     \<forall>u pw rd. s \<noteq> InsertUser u pw rd"
  by (auto simp: stmt_of_def Let_def split: if_splits)

lemma handler_state:
  assumes "Method r = ''POST''" and "Body r = Some p"
  shows "fst (userActionsHandler impl d w r) =
           (case stmt_of impl p of None \<Rightarrow> d | Some s \<Rightarrow> fst (Exec d s))"
  by (simp add: handler_factored [OF assms] fst_respond split: option.splits)

lemma handler_state_other:
  "Method r \<noteq> ''POST'' \<or> Body r = None \<Longrightarrow> fst (userActionsHandler impl d w r) = d"
  by (auto simp: userActionsHandler_def)

subsection \<open>Records are created by the create action only, and never deleted\<close>

text \<open>
  C5. (1) A create action answered with status 200 has appended exactly one row to the
  table: username, password and renewal date as read from the payload, not blocked,
  referral counter 0, no IP (and the id the store assigned). (2) Any request that is not a
  POST of the create action leaves the list of record ids as it was: it creates nothing.
  (3) After any request whatsoever the records that were in the table are still there, in
  place: nothing is deleted.
\<close>

theorem create_inserts_one:
  "(\<forall>p. Method r = ''POST'' \<and> Body r = Some p \<and>
        fst (assert_string (p ''action'')) = ''inserirUsuario'' \<and>
        StatusCodes (snd (userActionsHandler impl d w r)) = StatusCodes w @ [200] \<longrightarrow>
        rows (fst (userActionsHandler impl d w r)) =
          rows d @
          [\<lparr>id_col = next_id d,
            username_col = fst (assert_string (p ''username'')),
            password_col = fst (assert_string (p ''password'')),
            is_blocked_col = False,
            renewal_date_col = fst (assert_string (p ''renewal_date'')),
            ip_col = None, indicacao_col = 0\<rparr>]) \<and>
   ((\<forall>p. Method r = ''POST'' \<and> Body r = Some p \<longrightarrow>
         fst (assert_string (p ''action'')) \<noteq> ''inserirUsuario'') \<longrightarrow>
      map id_col (rows (fst (userActionsHandler impl d w r))) = map id_col (rows d)) \<and>
   take (length (rows d)) (map id_col (rows (fst (userActionsHandler impl d w r)))) =
     map id_col (rows d)"
proof (intro conjI allI impI)
  fix p
  assume h: "Method r = ''POST'' \<and> Body r = Some p \<and>
        fst (assert_string (p ''action'')) = ''inserirUsuario'' \<and>
        StatusCodes (snd (userActionsHandler impl d w r)) = StatusCodes w @ [200]"
  then have m: "Method r = ''POST''" and b: "Body r = Some p"
    and a: "fst (assert_string (p ''action'')) = ''inserirUsuario''"
    and c: "StatusCodes (snd (userActionsHandler impl d w r)) = StatusCodes w @ [200]"
    by simp_all
  let ?u = "fst (assert_string (p ''username''))"
  have e: "userActionsHandler impl d w r =
      respond ''inserirUsuario'' w
        (Exec d (InsertUser ?u (fst (assert_string (p ''password'')))
                   (fst (assert_string (p ''renewal_date'')))))"
    by (simp add: handler_factored [OF m b] stmt_of_insert [where p = p, OF a] a)
  have ok: "fault d = None \<and> \<not> violates_unique (rows d) ?u"
    using c unfolding e
    by (auto simp: Exec_insert respond_def jsonResponse_def split: option.splits if_splits)
  then show "rows (fst (userActionsHandler impl d w r)) =
          rows d @
          [\<lparr>id_col = next_id d,
            username_col = fst (assert_string (p ''username'')),
            password_col = fst (assert_string (p ''password'')),
            is_blocked_col = False,
            renewal_date_col = fst (assert_string (p ''renewal_date'')),
            ip_col = None, indicacao_col = 0\<rparr>]"
    unfolding e by (simp add: Exec_insert fst_respond new_row_def)
next
  assume n: "\<forall>p. Method r = ''POST'' \<and> Body r = Some p \<longrightarrow>
         fst (assert_string (p ''action'')) \<noteq> ''inserirUsuario''"
  show "map id_col (rows (fst (userActionsHandler impl d w r))) = map id_col (rows d)"
  proof (cases "Method r \<noteq> ''POST'' \<or> Body r = None")
    case True
    then show ?thesis
      by (simp only: handler_state_other)
  next
    case False
    then obtain p where m: "Method r = ''POST''" and b: "Body r = Some p"
      by auto
    with n have a: "fst (assert_string (p ''action'')) \<noteq> ''inserirUsuario''"
      by simp
    show ?thesis
    proof (cases "stmt_of impl p")
      case None
      then show ?thesis
        by (simp add: handler_state [OF m b])
    next
      case (Some s)
      from stmt_of_not_insert [where p = p, OF a Some] show ?thesis
        by (simp add: handler_state [OF m b] Some ids_Exec_update)
    qed
  qed
next
  show "take (length (rows d)) (map id_col (rows (fst (userActionsHandler impl d w r)))) =
          map id_col (rows d)"
  proof (cases "Method r \<noteq> ''POST'' \<or> Body r = None")
    case True
    then show ?thesis
      by (simp add: handler_state_other)
  next
    case False
    then obtain p where m: "Method r = ''POST''" and b: "Body r = Some p"
      by auto
    show ?thesis
      by (simp add: handler_state [OF m b] ids_Exec_prefix split: option.splits)
  qed
qed

lemma not_matches_bob_alice: "\<not> violates_unique [alice] ''bob''"
  by (simp add: violates_unique_def not_matches_bob)

lemma handler_create_bob:
  "userActionsHandler impl example_db fresh_writer (post create_bob) =
     (example_db\<lparr>sent := [InsertUser ''bob'' ''p'' ''2025-01-01''],
                 rows := [alice, new_row 2 ''bob'' ''p'' ''2025-01-01''],
                 next_id := 3\<rparr>,
      jsonResponse fresh_writer 200 \<lparr>Message = msg_success ''inserirUsuario'', Data = NoData\<rparr>)"
proof -
  have a: "fst (assert_string (create_bob ''action'')) = ''inserirUsuario''"
    and f: "fst (assert_string (create_bob ''username'')) = ''bob''"
      "fst (assert_string (create_bob ''password'')) = ''p''"
      "fst (assert_string (create_bob ''renewal_date'')) = ''2025-01-01''"
    by (simp_all add: create_bob_def)
  have e: "fault example_db = None" "sent example_db = []" "rows example_db = [alice]"
    "next_id example_db = 2"
    by (simp_all add: example_db_def)
  show ?thesis
    by (simp add: handler_factored [OF post_simps] stmt_of_insert [where p = create_bob, OF a]
          a f Exec_insert e not_matches_bob_alice respond_def)
qed

theorem create_inserts_one_witness:
  "Method (post create_bob) = ''POST'' \<and> Body (post create_bob) = Some create_bob \<and>
   fst (assert_string (create_bob ''action'')) = ''inserirUsuario'' \<and>
   StatusCodes (snd (userActionsHandler amd64_impl example_db fresh_writer (post create_bob))) =
     StatusCodes fresh_writer @ [200] \<and>
   rows (fst (userActionsHandler amd64_impl example_db fresh_writer (post create_bob))) =
     [alice,
      \<lparr>id_col = 2, username_col = ''bob'', password_col = ''p'', is_blocked_col = False,
       renewal_date_col = ''2025-01-01'', ip_col = None, indicacao_col = 0\<rparr>] \<and>
   Method (post block_Alice) = ''POST'' \<and> Body (post block_Alice) = Some block_Alice \<and>
   fst (assert_string (block_Alice ''action'')) \<noteq> ''inserirUsuario'' \<and>
   map id_col (rows (fst (userActionsHandler amd64_impl example_db fresh_writer
                            (post block_Alice)))) = [1]"
proof -
  have a: "fst (assert_string (create_bob ''action'')) = ''inserirUsuario''"
    and f: "fst (assert_string (create_bob ''username'')) = ''bob''"
      "fst (assert_string (create_bob ''password'')) = ''p''"
      "fst (assert_string (create_bob ''renewal_date'')) = ''2025-01-01''"
    by (simp_all add: create_bob_def)
  have c: "StatusCodes (snd (userActionsHandler amd64_impl example_db fresh_writer
        (post create_bob))) = StatusCodes fresh_writer @ [200]"
    by (simp add: handler_create_bob jsonResponse_def)
  have n: "\<forall>p. Method (post block_Alice) = ''POST'' \<and> Body (post block_Alice) = Some p \<longrightarrow>
        fst (assert_string (p ''action'')) \<noteq> ''inserirUsuario''"
    by (simp add: post_simps block_Alice_def)
  have e: "rows example_db = [alice]" "next_id example_db = 2" "id_col alice = 1"
    by (simp_all add: example_db_def alice_def)
  note t1 = create_inserts_one [where r = "post create_bob" and impl = amd64_impl
      and d = example_db and w = fresh_writer]
  note t2 = create_inserts_one [where r = "post block_Alice" and impl = amd64_impl
      and d = example_db and w = fresh_writer]
  have r1: "rows (fst (userActionsHandler amd64_impl example_db fresh_writer (post create_bob))) =
      rows example_db @
      [\<lparr>id_col = next_id example_db,
        username_col = fst (assert_string (create_bob ''username'')),
        password_col = fst (assert_string (create_bob ''password'')),
        is_blocked_col = False,
        renewal_date_col = fst (assert_string (create_bob ''renewal_date'')),
        ip_col = None, indicacao_col = 0\<rparr>]"
    using t1 post_simps [of create_bob] a c by blast
  have r2: "map id_col (rows (fst (userActionsHandler amd64_impl example_db fresh_writer
      (post block_Alice)))) = map id_col (rows example_db)"
    using t2 n by blast
  have a2: "fst (assert_string (block_Alice ''action'')) \<noteq> ''inserirUsuario''"
    by (simp add: block_Alice_def)
  show ?thesis
    using a c a2 r1 r2 by (simp add: post_simps f e)
qed

subsection \<open>The handler against the spec's reading\<close>

lemma string_or_zero: "fst (assert_string v) = string_or_zero v"
  by (cases v rule: assert_string.cases) (simp_all add: string_or_zero_def)

lemma bool_or_zero: "fst (assert_bool v) = bool_or_zero v"
  by (cases v rule: assert_bool.cases) (simp_all add: bool_or_zero_def)

lemma stmt_of_spec: "stmt_of impl p = spec_statement impl p"
  by (cases "p ''indicacao''" rule: assert_float64.cases)
    (simp_all add: stmt_of_def spec_statement_def Let_def string_or_zero bool_or_zero
      number_of_def)

subsection \<open>One envelope per request, with the status of its outcome\<close>

lemma spec_statement_examples:
  "spec_statement impl delete_everything = None"
  "spec_statement impl create_Alice = Some (InsertUser ''Alice'' ''p'' ''2025-01-01'')"
  "spec_statement impl block_bob = Some (UpdateBlocked True ''bob'')"
  "spec_statement impl block_Alice = Some (UpdateBlocked True ''Alice'')"
  by (simp_all add: spec_statement_def string_or_zero_def bool_or_zero_def
        delete_everything_def create_Alice_def block_bob_def block_Alice_def)

lemma Exec_create_Alice:
  "snd (Exec example_db (InsertUser ''Alice'' ''p'' ''2025-01-01'')) = Inl unique_violation"
  by (simp add: Exec_insert example_db_def violates_unique_def matches_alice)

lemma request_class_examples:
  "request_class impl example_db get_request = WrongMethod"
  "request_class impl example_db undecodable = ValidationError"
  "request_class impl example_db (post delete_everything) = ValidationError"
  "request_class impl example_db (post create_Alice) = ExecutionError"
  "request_class impl example_db (post block_bob) = NotFound"
  "request_class impl example_db (post block_Alice) = Success"
  by (simp_all add: request_class_def get_request_def undecodable_def post_simps
        spec_statement_examples Exec_create_Alice Exec_block_bob Exec_block_Alice)

text \<open>
  C7. Whatever the request, the database and the writer, the action handler sets the header
  \<open>Content-Type\<close> to \<open>application/json\<close>, calls \<^verbatim>\<open>WriteHeader\<close> once and encodes one
  value into the body, an object whose only member is \<open>message\<close> (the handler never fills
  \<open>data\<close>). The status is the code of the request's outcome as the spec classifies it,
  independently of what the handler does: 405 for a method other than POST; 400 for a
  validation error (a body that does not decode, an action tag that is none of the six, an
  \<open>indicacao\<close> that is not a number); otherwise, by the store's execution of the statement
  the payload asks for, 500 for its error, 404 for no affected row and 200 for success.
\<close>

theorem one_envelope:
  "Header (snd (userActionsHandler impl d w r)) =
     (Header w)(''Content-Type'' \<mapsto> ''application/json'') \<and>
   StatusCodes (snd (userActionsHandler impl d w r)) =
     StatusCodes w @ [status_of (request_class impl d r)] \<and>
   (\<exists>m. Written (snd (userActionsHandler impl d w r)) =
          Written w @ [JObject [(''message'', JString m)]])"
proof (cases "Method r = ''POST''")
  case False
  then show ?thesis
    by (simp add: userActionsHandler_def request_class_def jsonResponse_def encode_Response_def)
next
  case m: True
  show ?thesis
  proof (cases "Body r")
    case None
    with m show ?thesis
      by (simp add: userActionsHandler_def request_class_def jsonResponse_def
            encode_Response_def)
  next
    case b: (Some p)
    show ?thesis
    proof (cases "stmt_of impl p")
      case None
      with m b show ?thesis
        by (simp add: handler_factored [OF m b] request_class_def stmt_of_spec [symmetric]
              jsonResponse_def encode_Response_def)
    next
      case (Some s)
      obtain d' res where e: "Exec d s = (d', res)"
        by (cases "Exec d s")
      show ?thesis
        using m b
        by (cases res)
          (simp_all add: handler_factored [OF m b] Some e request_class_def
            stmt_of_spec [symmetric] respond_def jsonResponse_def encode_Response_def)
    qed
  qed
qed

theorem one_envelope_witness:
  "request_class amd64_impl example_db get_request = WrongMethod \<and>
   StatusCodes (snd (userActionsHandler amd64_impl example_db fresh_writer get_request)) =
     [405] \<and>
   request_class amd64_impl example_db undecodable = ValidationError \<and>
   StatusCodes (snd (userActionsHandler amd64_impl example_db fresh_writer undecodable)) =
     [400] \<and>
   request_class amd64_impl example_db (post delete_everything) = ValidationError \<and>
   StatusCodes (snd (userActionsHandler amd64_impl example_db fresh_writer
                       (post delete_everything))) = [400] \<and>
   request_class amd64_impl example_db (post create_Alice) = ExecutionError \<and>
   StatusCodes (snd (userActionsHandler amd64_impl example_db fresh_writer
                       (post create_Alice))) = [500] \<and>
   request_class amd64_impl example_db (post block_bob) = NotFound \<and>
   StatusCodes (snd (userActionsHandler amd64_impl example_db fresh_writer
                       (post block_bob))) = [404] \<and>
   request_class amd64_impl example_db (post block_Alice) = Success \<and>
   StatusCodes (snd (userActionsHandler amd64_impl example_db fresh_writer
                       (post block_Alice))) = [200] \<and>
   Header (snd (userActionsHandler amd64_impl example_db fresh_writer (post block_bob)))
     ''Content-Type'' = Some ''application/json'' \<and>
   Written (snd (userActionsHandler amd64_impl example_db fresh_writer (post block_bob))) =
     [JObject [(''message'', JString msg_not_found)]]"
proof -
  have f: "Header fresh_writer = Map.empty" "StatusCodes fresh_writer = []"
    "Written fresh_writer = []"
    by (simp_all add: fresh_writer_def)
  have h: "userActionsHandler amd64_impl example_db fresh_writer (post block_bob) =
     (example_db\<lparr>sent := [UpdateBlocked True ''bob'']\<rparr>,
      jsonResponse fresh_writer 404 \<lparr>Message = msg_not_found, Data = NoData\<rparr>)"
    by (simp add: handler_factored [OF post_simps] stmt_of_block_bob Exec_block_bob respond_def)
  have w: "Written (snd (userActionsHandler amd64_impl example_db fresh_writer
      (post block_bob))) = [JObject [(''message'', JString msg_not_found)]]"
    by (simp add: h jsonResponse_def encode_Response_def f)
  show ?thesis
    using one_envelope [of amd64_impl example_db fresh_writer get_request]
      one_envelope [of amd64_impl example_db fresh_writer undecodable]
      one_envelope [of amd64_impl example_db fresh_writer "post delete_everything"]
      one_envelope [of amd64_impl example_db fresh_writer "post create_Alice"]
      one_envelope [of amd64_impl example_db fresh_writer "post block_bob"]
      one_envelope [of amd64_impl example_db fresh_writer "post block_Alice"]
    by (simp add: request_class_examples f w)
qed

lemma stmt_of_recognized:
  assumes "fst (assert_string (p ''action'')) \<in> set recognized"
    and "fst (assert_string (p ''action'')) \<noteq> ''atualizarIndicacao''"
  shows "\<exists>s. stmt_of impl p = Some s"
  using assms by (auto simp: stmt_of_def recognized_def)

lemma respond_not_400:
  "StatusCodes (snd (respond a w res)) \<noteq> StatusCodes w @ [400]"
  by (cases res) (auto simp: respond_def jsonResponse_def split: sum.splits)

subsection \<open>Missing and mistyped fields\<close>

text \<open>
  C8. For a POST with a decodable payload, the database the handler returns is the one the
  store returns for exactly this statement, where every field other than \<open>indicacao\<close> that is
  missing or not of its JSON type is replaced by the zero value of its type (the empty
  string for \<open>username\<close>, \<open>password\<close>, \<open>renewal_date\<close>, \<open>new_password\<close>, \<open>novo_ip\<close>;
  \<open>false\<close> for \<open>is_blocked\<close>): the statement is sent and executed with those values. For
  a recognized action other than \<open>atualizarIndicacao\<close> the answer is never the validation
  error 400, whatever the fields. Only \<open>indicacao\<close> is checked: when it is missing or not a
  number the answer is 400 and the database is returned as it was.
\<close>

theorem zero_value_defaults:
  assumes "Method r = ''POST''" and "Body r = Some p"
  shows "fst (userActionsHandler impl d w r) =
           (let a = string_or_zero (p ''action''); u = string_or_zero (p ''username'')
            in if a = ''inserirUsuario'' then
                 fst (Exec d (InsertUser u (string_or_zero (p ''password''))
                                (string_or_zero (p ''renewal_date''))))
               else if a = ''atualizarSenha'' then
                 fst (Exec d (UpdatePassword (string_or_zero (p ''new_password'')) u))
               else if a = ''bloquearUsuario'' then
                 fst (Exec d (UpdateBlocked (bool_or_zero (p ''is_blocked'')) u))
               else if a = ''atualizarRenovacao'' then
                 fst (Exec d (UpdateRenewal (string_or_zero (p ''renewal_date'')) u))
               else if a = ''atualizarIndicacao'' then
                 (case number_of (p ''indicacao'') of
                    None \<Rightarrow> d
                  | Some x \<Rightarrow> fst (Exec d (UpdateIndicacao (int_of_float64 impl x) u)))
               else if a = ''atualizarIP'' then
                 fst (Exec d (UpdateIP (string_or_zero (p ''novo_ip'')) u))
               else d) \<and>
         (string_or_zero (p ''action'') \<in> set recognized \<and>
          string_or_zero (p ''action'') \<noteq> ''atualizarIndicacao'' \<longrightarrow>
            StatusCodes (snd (userActionsHandler impl d w r)) \<noteq> StatusCodes w @ [400]) \<and>
         (string_or_zero (p ''action'') = ''atualizarIndicacao'' \<and>
          number_of (p ''indicacao'') = None \<longrightarrow>
            userActionsHandler impl d w r =
              (d, jsonResponse w 400 \<lparr>Message = msg_bad_indicacao, Data = NoData\<rparr>))"
proof (intro conjI impI)
  have "fst (userActionsHandler impl d w r) =
      (case spec_statement impl p of None \<Rightarrow> d | Some s \<Rightarrow> fst (Exec d s))"
    by (simp add: handler_state [OF assms] stmt_of_spec)
  then show "fst (userActionsHandler impl d w r) =
           (let a = string_or_zero (p ''action''); u = string_or_zero (p ''username'')
            in if a = ''inserirUsuario'' then
                 fst (Exec d (InsertUser u (string_or_zero (p ''password''))
                                (string_or_zero (p ''renewal_date''))))
               else if a = ''atualizarSenha'' then
                 fst (Exec d (UpdatePassword (string_or_zero (p ''new_password'')) u))
               else if a = ''bloquearUsuario'' then
                 fst (Exec d (UpdateBlocked (bool_or_zero (p ''is_blocked'')) u))
               else if a = ''atualizarRenovacao'' then
                 fst (Exec d (UpdateRenewal (string_or_zero (p ''renewal_date'')) u))
               else if a = ''atualizarIndicacao'' then
                 (case number_of (p ''indicacao'') of
                    None \<Rightarrow> d
                  | Some x \<Rightarrow> fst (Exec d (UpdateIndicacao (int_of_float64 impl x) u)))
               else if a = ''atualizarIP'' then
                 fst (Exec d (UpdateIP (string_or_zero (p ''novo_ip'')) u))
               else d)"
    by (simp add: spec_statement_def Let_def split: option.splits)
next
  assume "string_or_zero (p ''action'') \<in> set recognized \<and>
          string_or_zero (p ''action'') \<noteq> ''atualizarIndicacao''"
  then obtain s where "stmt_of impl p = Some s"
    using stmt_of_recognized [where p = p and impl = impl] by (auto simp: string_or_zero)
  then show "StatusCodes (snd (userActionsHandler impl d w r)) \<noteq> StatusCodes w @ [400]"
    by (simp add: handler_factored [OF assms] respond_not_400)
next
  assume h: "string_or_zero (p ''action'') = ''atualizarIndicacao'' \<and>
          number_of (p ''indicacao'') = None"
  then have "spec_statement impl p = None"
    by (simp add: spec_statement_def)
  with h show "userActionsHandler impl d w r =
      (d, jsonResponse w 400 \<lparr>Message = msg_bad_indicacao, Data = NoData\<rparr>)"
    by (simp add: handler_factored [OF assms] stmt_of_spec string_or_zero)
qed

lemma Exec_password_empty:
  "Exec example_db (UpdatePassword [] ''alice'') =
     (example_db\<lparr>rows := [alice\<lparr>password_col := []\<rparr>],
                 sent := [UpdatePassword [] ''alice'']\<rparr>, Inr 1)"
  by (simp add: Exec_def example_db_def update_where_def matches_alice)

lemma Exec_blocked_false:
  "Exec example_db (UpdateBlocked False ''alice'') =
     (example_db\<lparr>rows := [alice\<lparr>is_blocked_col := False\<rparr>],
                 sent := [UpdateBlocked False ''alice'']\<rparr>, Inr 1)"
  by (simp add: Exec_def example_db_def update_where_def matches_alice)

theorem zero_value_defaults_witness:
  "Method (post password_missing) = ''POST'' \<and>
   Body (post password_missing) = Some password_missing \<and>
   password_missing ''new_password'' = None \<and>
   fst (userActionsHandler amd64_impl example_db fresh_writer (post password_missing)) =
     example_db\<lparr>rows := [alice\<lparr>password_col := []\<rparr>],
                sent := [UpdatePassword [] ''alice'']\<rparr> \<and>
   string_or_zero (password_missing ''action'') \<in> set recognized \<and>
   string_or_zero (password_missing ''action'') \<noteq> ''atualizarIndicacao'' \<and>
   StatusCodes (snd (userActionsHandler amd64_impl example_db fresh_writer
                       (post password_missing))) \<noteq> StatusCodes fresh_writer @ [400] \<and>
   blocked_mistyped ''is_blocked'' = Some (JString ''true'') \<and>
   fst (userActionsHandler amd64_impl example_db fresh_writer (post blocked_mistyped)) =
     example_db\<lparr>rows := [alice\<lparr>is_blocked_col := False\<rparr>],
                sent := [UpdateBlocked False ''alice'']\<rparr> \<and>
   string_or_zero (not_a_number ''action'') = ''atualizarIndicacao'' \<and>
   number_of (not_a_number ''indicacao'') = None \<and>
   userActionsHandler amd64_impl example_db fresh_writer (post not_a_number) =
     (example_db,
      jsonResponse fresh_writer 400 \<lparr>Message = msg_bad_indicacao, Data = NoData\<rparr>)"
proof -
  have p1: "string_or_zero (password_missing ''action'') = ''atualizarSenha''"
    "string_or_zero (password_missing ''username'') = ''alice''"
    "string_or_zero (password_missing ''new_password'') = []"
    "password_missing ''new_password'' = None"
    by (simp_all add: password_missing_def string_or_zero_def)
  have p2: "string_or_zero (blocked_mistyped ''action'') = ''bloquearUsuario''"
    "string_or_zero (blocked_mistyped ''username'') = ''alice''"
    "bool_or_zero (blocked_mistyped ''is_blocked'') = False"
    "blocked_mistyped ''is_blocked'' = Some (JString ''true'')"
    by (simp_all add: blocked_mistyped_def string_or_zero_def bool_or_zero_def)
  have p3: "string_or_zero (not_a_number ''action'') = ''atualizarIndicacao''"
    "number_of (not_a_number ''indicacao'') = None"
    by (simp_all add: not_a_number_def string_or_zero_def number_of_def)
  have a1: "string_or_zero (password_missing ''action'') \<in> set recognized"
    "string_or_zero (password_missing ''action'') \<noteq> ''atualizarIndicacao''"
    by (simp_all add: p1 recognized_def)
  note t1 = zero_value_defaults [where p = password_missing and impl = amd64_impl
      and d = example_db and w = fresh_writer, OF post_simps]
  note t2 = zero_value_defaults [where p = blocked_mistyped and impl = amd64_impl
      and d = example_db and w = fresh_writer, OF post_simps]
  note t3 = zero_value_defaults [where p = not_a_number and impl = amd64_impl
      and d = example_db and w = fresh_writer, OF post_simps]
  have r1: "fst (userActionsHandler amd64_impl example_db fresh_writer (post password_missing)) =
     example_db\<lparr>rows := [alice\<lparr>password_col := []\<rparr>],
                sent := [UpdatePassword [] ''alice'']\<rparr>"
    using t1 by (simp add: p1(1-3) Exec_password_empty)
  have r1': "StatusCodes (snd (userActionsHandler amd64_impl example_db fresh_writer
      (post password_missing))) \<noteq> StatusCodes fresh_writer @ [400]"
    using t1 a1 by blast
  have r2: "fst (userActionsHandler amd64_impl example_db fresh_writer (post blocked_mistyped)) =
     example_db\<lparr>rows := [alice\<lparr>is_blocked_col := False\<rparr>],
                sent := [UpdateBlocked False ''alice'']\<rparr>"
    using t2 by (simp add: p2(1-3) Exec_blocked_false)
  have r3: "userActionsHandler amd64_impl example_db fresh_writer (post not_a_number) =
     (example_db,
      jsonResponse fresh_writer 400 \<lparr>Message = msg_bad_indicacao, Data = NoData\<rparr>)"
    using t3 p3 by blast
  show ?thesis
    using p1(4) r1 a1 r1' p2(4) r2 p3 r3 by (simp add: post_simps)
qed

lemma keys_encode_User:
  "object_keys (encode_User u) =
     [''id'', ''username'', ''is_blocked'', ''renewal_date'', ''ip'', ''indicacao'']"
  by (simp add: encode_User_def split: option.splits)

lemma keys_encode_Response: "''password'' \<notin> set (object_keys (encode_Response r))"
  by (auto simp: encode_Response_def keys_encode_User split: data.splits)

lemma select_cols_same: "same_but_password a b \<Longrightarrow> select_cols b = select_cols a"
  by (cases a; cases b) (simp add: same_but_password_def select_cols_def)

lemma map_select_same:
  "list_all2 same_but_password rs rs' \<Longrightarrow> map select_cols rs' = map select_cols rs"
  by (induction rs rs' rule: list_all2_induct) (simp_all add: select_cols_same)

lemma Query_same:
  "list_all2 same_but_password (rows d) rs \<Longrightarrow> snd (Query (d\<lparr>rows := rs\<rparr>)) = snd (Query d)"
  by (simp add: Query_def Let_def map_select_same split: option.splits)

subsection \<open>The listing does not show passwords\<close>

text \<open>
  C9. If the rows of two databases differ at most in their passwords, the listing handler
  leaves the same response in both cases: same header, status and body. And the value it
  writes has no member named \<open>password\<close>, at any depth.
\<close>

theorem listing_hides_passwords:
  assumes "list_all2 same_but_password (rows d) rs"
  shows "snd (listarUsuariosHandler (d\<lparr>rows := rs\<rparr>) w r) = snd (listarUsuariosHandler d w r) \<and>
         (\<exists>v. Written (snd (listarUsuariosHandler d w r)) = Written w @ [v] \<and>
              ''password'' \<notin> set (object_keys v))"
proof
  show "snd (listarUsuariosHandler (d\<lparr>rows := rs\<rparr>) w r) = snd (listarUsuariosHandler d w r)"
    using Query_same [OF assms]
    by (cases "Query d"; cases "Query (d\<lparr>rows := rs\<rparr>)")
      (auto simp: listarUsuariosHandler_def split: sum.splits)
  have "\<exists>c x. snd (listarUsuariosHandler d w r) = jsonResponse w c x"
    by (cases "Query d") (auto simp: listarUsuariosHandler_def split: sum.splits)
  then obtain c x where "snd (listarUsuariosHandler d w r) = jsonResponse w c x"
    by blast
  then have "Written (snd (listarUsuariosHandler d w r)) = Written w @ [encode_Response x]"
    by (simp add: jsonResponse_def)
  moreover have "''password'' \<notin> set (object_keys (encode_Response x))"
    by (rule keys_encode_Response)
  ultimately show "\<exists>v. Written (snd (listarUsuariosHandler d w r)) = Written w @ [v] \<and>
              ''password'' \<notin> set (object_keys v)"
    by blast
qed

lemma listing_example:
  "snd (listarUsuariosHandler example_db fresh_writer get_request) =
     \<lparr>Header = [''Content-Type'' \<mapsto> ''application/json''], StatusCodes = [200],
      Written =
        [JObject
           [(''message'', JString msg_listed),
            (''data'',
             JArray
               [JObject
                  [(''id'', JNumber 1), (''username'', JString ''alice''),
                   (''is_blocked'', JBool False), (''renewal_date'', JString ''2025-01-01''),
                   (''ip'', JNil), (''indicacao'', JNumber 0)]])]]\<rparr>"
  by (simp add: listarUsuariosHandler_def get_request_def Query_def example_db_def alice_def
        select_cols_def Scan_def jsonResponse_def encode_Response_def encode_User_def
        fresh_writer_def)

theorem listing_hides_passwords_witness:
  "list_all2 same_but_password (rows example_db) [alice\<lparr>password_col := ''other''\<rparr>] \<and>
   snd (listarUsuariosHandler (example_db\<lparr>rows := [alice\<lparr>password_col := ''other''\<rparr>]\<rparr>)
          fresh_writer get_request) =
     \<lparr>Header = [''Content-Type'' \<mapsto> ''application/json''], StatusCodes = [200],
      Written =
        [JObject
           [(''message'', JString msg_listed),
            (''data'',
             JArray
               [JObject
                  [(''id'', JNumber 1), (''username'', JString ''alice''),
                   (''is_blocked'', JBool False), (''renewal_date'', JString ''2025-01-01''),
                   (''ip'', JNil), (''indicacao'', JNumber 0)]])]]\<rparr>"
proof -
  have h: "list_all2 same_but_password (rows example_db) [alice\<lparr>password_col := ''other''\<rparr>]"
    by (simp add: example_db_def same_but_password_def)
  show ?thesis
    using h listing_hides_passwords [OF h, of fresh_writer get_request]
    by (simp only: listing_example)
qed

subsection \<open>The handler that compares usernames exactly\<close>

text \<open>
  C2 fails on the handler of lines 87--148. With the row \<open>alice\<close> stored, blocking
  \<open>Alice\<close> sends an \<^verbatim>\<open>UPDATE\<close> that selects no row: the answer is 404 and the row
  is unchanged; blocking \<open>alice\<close> is answered with 200 and blocks the row. The two usernames
  differ only in letter case, and the handler of lines 272--337 answers both with 200.
\<close>

theorem exact_handler_case_sensitive:
  "differ_only_in_case ''Alice'' ''alice'' \<and>
   userActionsHandler_exact amd64_impl example_db fresh_writer (post block_Alice) =
     (example_db\<lparr>sent := [UpdateBlockedExact True ''Alice'']\<rparr>,
      jsonResponse fresh_writer 404 \<lparr>Message = msg_not_found, Data = NoData\<rparr>) \<and>
   userActionsHandler_exact amd64_impl example_db fresh_writer (post block_alice) =
     (example_db\<lparr>rows := [alice\<lparr>is_blocked_col := True\<rparr>],
                 sent := [UpdateBlockedExact True ''alice'']\<rparr>,
      jsonResponse fresh_writer 200
        \<lparr>Message = msg_success ''bloquearUsuario'', Data = NoData\<rparr>) \<and>
   userActionsHandler amd64_impl example_db fresh_writer (post block_Alice) =
     (example_db\<lparr>rows := [alice\<lparr>is_blocked_col := True\<rparr>],
                 sent := [UpdateBlocked True ''Alice'']\<rparr>,
      jsonResponse fresh_writer 200
        \<lparr>Message = msg_success ''bloquearUsuario'', Data = NoData\<rparr>)"
proof -
  have e1: "Exec example_db (UpdateBlockedExact True ''Alice'') =
      (example_db\<lparr>sent := [UpdateBlockedExact True ''Alice'']\<rparr>, Inr 0)"
    by (simp add: Exec_def example_db_def update_exact_def matches_exact_alice)
  have e2: "Exec example_db (UpdateBlockedExact True ''alice'') =
      (example_db\<lparr>rows := [alice\<lparr>is_blocked_col := True\<rparr>],
                  sent := [UpdateBlockedExact True ''alice'']\<rparr>, Inr 1)"
    by (simp add: Exec_def example_db_def update_exact_def matches_exact_alice)
  have h1: "userActionsHandler_exact amd64_impl example_db fresh_writer (post block_Alice) =
     (example_db\<lparr>sent := [UpdateBlockedExact True ''Alice'']\<rparr>,
      jsonResponse fresh_writer 404 \<lparr>Message = msg_not_found, Data = NoData\<rparr>)"
    by (simp add: userActionsHandler_exact_def post_def block_Alice_def e1)
  have h2: "userActionsHandler_exact amd64_impl example_db fresh_writer (post block_alice) =
     (example_db\<lparr>rows := [alice\<lparr>is_blocked_col := True\<rparr>],
                 sent := [UpdateBlockedExact True ''alice'']\<rparr>,
      jsonResponse fresh_writer 200
        \<lparr>Message = msg_success ''bloquearUsuario'', Data = NoData\<rparr>)"
    by (simp add: userActionsHandler_exact_def post_def block_alice_def e2)
  have h3: "userActionsHandler amd64_impl example_db fresh_writer (post block_Alice) =
     (example_db\<lparr>rows := [alice\<lparr>is_blocked_col := True\<rparr>],
                 sent := [UpdateBlocked True ''Alice'']\<rparr>,
      jsonResponse fresh_writer 200
        \<lparr>Message = msg_success ''bloquearUsuario'', Data = NoData\<rparr>)"
    by (simp add: userActionsHandler_def post_def block_Alice_def Exec_block_Alice)
  show ?thesis
    using Alice_alice h1 h2 h3 by simp
qed

end
